theory Spec2Isabelle
  imports Complex_Main
begin

section \<open>The farmer harvest game: data model\<close>

text \<open>
  A shallow embedding of \<^verbatim>\<open>src/farmer-game/Farmer.js\<close> and
  \<^verbatim>\<open>src/farmer-game/Game.js\<close>. JavaScript numbers are read as real numbers
  (point values, the score and the goal, which only ever hold integers, as \<open>int\<close>).
  Objects are records passed by value; a method that mutates \<^verbatim>\<open>this\<close> takes the
  object and returns the updated one. The drawing routines, the DOM read-out
  (\<^verbatim>\<open>this.ui\<close>, \<^verbatim>\<open>syncUI\<close>) and the scheduling of the next frame do not
  write any field of the simulation and are left out. \<^verbatim>\<open>Math.random()\<close> is a
  stream \<open>rnd\<close> of reals read at increasing positions; \<^verbatim>\<open>performance.now()\<close>
  is the argument \<open>now\<close>.
\<close>

definition WIDTH :: real where "WIDTH = 900"
definition HEIGHT :: real where "HEIGHT = 540"
definition TILE :: real where "TILE = 30"
definition GAME_LEN :: real where "GAME_LEN = 60"
definition GOAL :: int where "GOAL = 15"

datatype State = MENU | PLAYING | PAUSED | GAME_OVER | WIN

subsection \<open>Farmer.js: geometry and the entity base class\<close>

definition clamp :: "real \<Rightarrow> real \<Rightarrow> real \<Rightarrow> real" where
  "clamp v lo hi = min hi (max lo v)"

record Entity =
  x :: real
  y :: real
  w :: real
  h :: real
  dead :: bool

definition aabb :: "'a Entity_scheme \<Rightarrow> 'b Entity_scheme \<Rightarrow> bool" where
  "aabb a b \<longleftrightarrow>
     x a < x b + w b \<and>
     x a + w a > x b \<and>
     y a < y b + h b \<and>
     y a + h a > y b"

subsection \<open>Farmer.js, its Crop.js part: crops, power-ups, scarecrows, input\<close>

text \<open>
  The type strings of crops and power-ups are enumerations: \<^verbatim>\<open>spawnCrop\<close> and
  \<^verbatim>\<open>spawnPowerUp\<close> are the only callers of the constructors and pass nothing else.
  Fields whose source name is reserved or already taken carry a one-letter prefix
  (\<^verbatim>\<open>value\<close> is \<open>cvalue\<close>, \<^verbatim>\<open>type\<close> is \<open>ctype\<close> or \<open>ptype\<close>,
  \<^verbatim>\<open>data\<close> is \<open>cdata\<close>, \<open>pdata\<close> or \<open>adata\<close>).
\<close>

datatype CropType = wheat | pumpkin | goldenApple

record CropData =
  dvalue :: int
  dsize :: real
  stemColor :: string
  headColor :: string

definition cropData :: "CropType \<Rightarrow> CropData" where
  "cropData t = (case t of
      wheat \<Rightarrow> \<lparr>dvalue = 1, dsize = 8, stemColor = ''#2f7d32'', headColor = ''#d9a441''\<rparr>
    | pumpkin \<Rightarrow> \<lparr>dvalue = 3, dsize = 12, stemColor = ''#4a7c59'', headColor = ''#ff6f00''\<rparr>
    | goldenApple \<Rightarrow> \<lparr>dvalue = 5, dsize = 10, stemColor = ''#2f7d32'', headColor = ''#ffd700''\<rparr>)"

record Crop = Entity +
  ctype :: CropType
  sway :: real
  cdata :: CropData
  cvalue :: int

text \<open>The constructor of \<^verbatim>\<open>Crop\<close>; \<open>r\<close> is its call of \<^verbatim>\<open>Math.random()\<close>.\<close>

definition Crop_new :: "real \<Rightarrow> real \<Rightarrow> CropType \<Rightarrow> real \<Rightarrow> Crop" where
  "Crop_new gx gy t r =
     \<lparr>x = gx, y = gy, w = 20, h = 26, dead = False,
      ctype = t, sway = r * pi * 2, cdata = cropData t, cvalue = dvalue (cropData t)\<rparr>"

definition Crop_update :: "real \<Rightarrow> Crop \<Rightarrow> Crop" where
  "Crop_update dt c = c\<lparr>sway := sway c + dt * 2\<rparr>"

datatype PowerType = Speed | Scythe

record PowerData =
  pcolor :: string
  effect :: string
  multiplier :: "real option"
  prange :: "real option"

definition powerData :: "PowerType \<Rightarrow> PowerData" where
  "powerData t = (case t of
      Speed \<Rightarrow> \<lparr>pcolor = ''#00bcd4'', effect = ''Speed Boost'', multiplier = Some (18 / 10), prange = None\<rparr>
    | Scythe \<Rightarrow> \<lparr>pcolor = ''#ff5722'', effect = ''Scythe'', multiplier = None, prange = Some 80\<rparr>)"

record PowerUp = Entity +
  ptype :: PowerType
  duration :: real
  pulse :: real
  pdata :: PowerData

definition PowerUp_new :: "real \<Rightarrow> real \<Rightarrow> PowerType \<Rightarrow> PowerUp" where
  "PowerUp_new gx gy t =
     \<lparr>x = gx, y = gy, w = 24, h = 24, dead = False,
      ptype = t, duration = 8, pulse = 0, pdata = powerData t\<rparr>"

definition PowerUp_update :: "real \<Rightarrow> PowerUp \<Rightarrow> PowerUp" where
  "PowerUp_update dt p = p\<lparr>pulse := pulse p + dt * 4\<rparr>"

type_synonym Scarecrow = Entity

definition Scarecrow_new :: "real \<Rightarrow> real \<Rightarrow> Scarecrow" where
  "Scarecrow_new gx gy = \<lparr>x = gx, y = gy, w = 26, h = 46, dead = False\<rparr>"

record Input =
  keys :: "string set"

subsection \<open>Farmer.js: the player\<close>

text \<open>
  \<^verbatim>\<open>activePowerUps\<close> is a JavaScript \<^verbatim>\<open>Map\<close>: entries in insertion order,
  \<^verbatim>\<open>set\<close> overwrites the value of a key that is present and appends a new key,
  \<^verbatim>\<open>delete\<close> removes the key. It is an association list here, so that "one
  entry per kind" is a property to prove and not one of the type.
\<close>

record Active =
  ptimeLeft :: real
  adata :: PowerData

type_synonym PowerMap = "(PowerType \<times> Active) list"

fun map_set :: "'k \<Rightarrow> 'v \<Rightarrow> ('k \<times> 'v) list \<Rightarrow> ('k \<times> 'v) list" where
  "map_set k v [] = [(k, v)]"
| "map_set k v (e # m) = (if fst e = k then (k, v) # m else e # map_set k v m)"

definition map_delete :: "'k \<Rightarrow> ('k \<times> 'v) list \<Rightarrow> ('k \<times> 'v) list" where
  "map_delete k m = filter (\<lambda>e. fst e \<noteq> k) m"

definition map_has :: "'k \<Rightarrow> ('k \<times> 'v) list \<Rightarrow> bool" where
  "map_has k m = list_ex (\<lambda>e. fst e = k) m"

record Farmer = Entity +
  baseSpeed :: real
  speed :: real
  vx :: real
  vy :: real
  color :: string
  activePowerUps :: PowerMap
  hasScythe :: bool

definition Farmer_new :: "real \<Rightarrow> real \<Rightarrow> Farmer" where
  "Farmer_new gx gy =
     \<lparr>x = gx, y = gy, w = 34, h = 34, dead = False,
      baseSpeed = 260, speed = 260, vx = 0, vy = 0, color = ''#8b5a2b'',
      activePowerUps = [], hasScythe = False\<rparr>"

definition handleInput :: "Input \<Rightarrow> Farmer \<Rightarrow> Farmer" where
  "handleInput inp f =
     (let L = ''ArrowLeft'' \<in> keys inp; R = ''ArrowRight'' \<in> keys inp;
          U = ''ArrowUp'' \<in> keys inp; D = ''ArrowDown'' \<in> keys inp;
          f1 = f\<lparr>vx := (of_bool R - of_bool L) * speed f\<rparr>
      in f1\<lparr>vy := (of_bool D - of_bool U) * speed f1\<rparr>)"

text \<open>
  The body of the callback of \<^verbatim>\<open>activePowerUps.forEach\<close> in
  \<^verbatim>\<open>updatePowerUps\<close>, for the entry \<open>e\<close>: the timer of the entry is decreased in
  place, then the entry is deleted or its effect applied. For a kind without a
  \<^verbatim>\<open>multiplier\<close> the product is not a number in JavaScript; \<open>the None\<close> leaves
  it unspecified, and the guard on the kind keeps that case from being read.
\<close>

definition powerUpStep :: "real \<Rightarrow> Farmer \<Rightarrow> PowerType \<times> Active \<Rightarrow> Farmer" where
  "powerUpStep dt f e =
     (let type = fst e;
          powerUp = (snd e)\<lparr>ptimeLeft := ptimeLeft (snd e) - dt\<rparr>;
          f1 = f\<lparr>activePowerUps := map_set type powerUp (activePowerUps f)\<rparr>
      in if ptimeLeft powerUp \<le> 0 then f1\<lparr>activePowerUps := map_delete type (activePowerUps f1)\<rparr>
         else if type = Speed then f1\<lparr>speed := baseSpeed f1 * the (multiplier (adata powerUp))\<rparr>
         else if type = Scythe then f1\<lparr>hasScythe := True\<rparr>
         else f1)"

definition updatePowerUps :: "real \<Rightarrow> Farmer \<Rightarrow> Farmer" where
  "updatePowerUps dt f =
     foldl (powerUpStep dt) (f\<lparr>speed := baseSpeed f, hasScythe := False\<rparr>) (activePowerUps f)"

definition addPowerUp :: "PowerUp \<Rightarrow> Farmer \<Rightarrow> Farmer" where
  "addPowerUp p f =
     f\<lparr>activePowerUps :=
         map_set (ptype p) \<lparr>ptimeLeft = duration p, adata = pdata p\<rparr> (activePowerUps f)\<rparr>"

text \<open>\<^verbatim>\<open>Farmer.update(dt, game)\<close>; of the game it reads the obstacles only.\<close>

definition Farmer_update :: "real \<Rightarrow> Scarecrow list \<Rightarrow> Farmer \<Rightarrow> Farmer" where
  "Farmer_update dt obs f0 =
     (let f = updatePowerUps dt f0;
          oldX = x f; oldY = y f;
          f1 = f\<lparr>x := clamp (x f + vx f * dt) 0 (WIDTH - w f)\<rparr>;
          f2 = f1\<lparr>y := clamp (y f1 + vy f1 * dt) 0 (HEIGHT - h f1)\<rparr>
      in if list_ex (\<lambda>ob. aabb f2 ob) obs then f2\<lparr>x := oldX, y := oldY\<rparr> else f2)"

subsection \<open>Game.js: the orchestrator\<close>

text \<open>An element of \<^verbatim>\<open>pointTexts\<close>, the object literal pushed on collection.\<close>

record PointText =
  tx :: real
  ty :: real
  points :: int
  life :: real
  tcolor :: string

record Game =
  state :: State
  player :: Farmer
  crops :: "Crop list"
  powerUps :: "PowerUp list"
  obstacles :: "Scarecrow list"
  pointTexts :: "PointText list"
  lastTime :: real
  timeLeft :: real
  accumSpawn :: real
  accumPowerUpSpawn :: real
  score :: int
  goal :: int
  input :: Input

text \<open>
  \<^verbatim>\<open>this.spawnEvery\<close> and \<^verbatim>\<open>this.powerUpSpawnEvery\<close> are assigned in the
  constructor and nowhere else, so they are constants.
\<close>

definition spawnEvery :: real where "spawnEvery = 8 / 10"
definition powerUpSpawnEvery :: real where "powerUpSpawnEvery = 12"

text \<open>The constructor, without the canvas, the listeners and the read-out.\<close>

definition Game_new :: Game where
  "Game_new =
     \<lparr>state = MENU,
      player = Farmer_new (WIDTH / 2 - 17) (HEIGHT - 80),
      crops = [], powerUps = [], obstacles = [], pointTexts = [],
      lastTime = 0, timeLeft = GAME_LEN,
      accumSpawn = 0, accumPowerUpSpawn = 0,
      score = 0, goal = GOAL,
      input = \<lparr>keys = {}\<rparr>\<rparr>"

definition reset :: "real \<Rightarrow> Game \<Rightarrow> Game" where
  "reset now g =
     (let g1 = g\<lparr>state := MENU,
                 player := Farmer_new (WIDTH / 2 - 17) (HEIGHT - 80),
                 crops := [], powerUps := [], obstacles := [], pointTexts := [],
                 score := 0, timeLeft := GAME_LEN,
                 accumSpawn := 0, accumPowerUpSpawn := 0,
                 lastTime := now\<rparr>
      in g1\<lparr>obstacles := obstacles g1 @ [Scarecrow_new 200 220, Scarecrow_new 650 160]\<rparr>)"

definition start :: "real \<Rightarrow> Game \<Rightarrow> Game" where
  "start now g =
     (if state g = MENU \<or> state g = GAME_OVER \<or> state g = WIN
      then (reset now g)\<lparr>state := PLAYING\<rparr>
      else if state g = PAUSED then g\<lparr>state := PLAYING\<rparr>
      else g)"

definition togglePause :: "Game \<Rightarrow> Game" where
  "togglePause g =
     (if state g = PLAYING then g\<lparr>state := PAUSED\<rparr>
      else if state g = PAUSED then g\<lparr>state := PLAYING\<rparr>
      else g)"

text \<open>\<^verbatim>\<open>Input.onKeyDown\<close> and \<^verbatim>\<open>Input.onKeyUp\<close>, on the game that owns the input.\<close>

definition onKeyDown :: "string \<Rightarrow> Game \<Rightarrow> Game" where
  "onKeyDown k g =
     (let g1 = (if k = ''p'' \<or> k = ''P'' then togglePause g else g)
      in g1\<lparr>input := (input g1)\<lparr>keys := insert k (keys (input g1))\<rparr>\<rparr>)"

definition onKeyUp :: "string \<Rightarrow> Game \<Rightarrow> Game" where
  "onKeyUp k g = g\<lparr>input := (input g)\<lparr>keys := keys (input g) - {k}\<rparr>\<rparr>"

text \<open>
  \<^verbatim>\<open>spawnCrop\<close> reads the stream at \<open>i\<close>, \<open>i + 1\<close>, \<open>i + 2\<close> and, in the
  constructor of the crop, \<open>i + 3\<close>. \<^verbatim>\<open>spawnPowerUp\<close> reads three values; an index
  outside \<^verbatim>\<open>types\<close> gives \<^verbatim>\<open>undefined\<close>, for which the constructor's default
  parameter \<^verbatim>\<open>"speed"\<close> stands in.
\<close>

definition spawnCrop :: "(nat \<Rightarrow> real) \<Rightarrow> nat \<Rightarrow> Crop" where
  "spawnCrop rnd i =
     (let gx = of_int \<lfloor>rnd i * ((WIDTH - 2 * TILE) / TILE)\<rfloor> * TILE + TILE;
          gy = of_int \<lfloor>rnd (i + 1) * ((HEIGHT - 2 * TILE) / TILE)\<rfloor> * TILE + TILE;
          rand = rnd (i + 2);
          cropType = (if rand < 7 / 10 then wheat else if rand < 9 / 10 then pumpkin else goldenApple)
      in Crop_new gx gy cropType (rnd (i + 3)))"

definition spawnPowerUp :: "(nat \<Rightarrow> real) \<Rightarrow> nat \<Rightarrow> PowerUp" where
  "spawnPowerUp rnd i =
     (let gx = of_int \<lfloor>rnd i * ((WIDTH - 2 * TILE) / TILE)\<rfloor> * TILE + TILE;
          gy = of_int \<lfloor>rnd (i + 1) * ((HEIGHT - 2 * TILE) / TILE)\<rfloor> * TILE + TILE;
          types = [Speed, Scythe];
          k = \<lfloor>rnd (i + 2) * real (length types)\<rfloor>;
          type = (if 0 \<le> k \<and> k < int (length types) then types ! nat k else Speed)
      in PowerUp_new gx gy type)"

text \<open>The two \<^verbatim>\<open>while\<close> loops of \<^verbatim>\<open>update\<close>; \<open>i\<close> is the position in the stream.\<close>

function spawnCrops :: "(nat \<Rightarrow> real) \<Rightarrow> nat \<Rightarrow> Game \<Rightarrow> nat \<times> Game" where
  "spawnCrops rnd i g =
     (if accumSpawn g \<ge> spawnEvery
      then spawnCrops rnd (i + 4)
             (g\<lparr>accumSpawn := accumSpawn g - spawnEvery, crops := crops g @ [spawnCrop rnd i]\<rparr>)
      else (i, g))"
  by pat_completeness auto
termination
proof (relation "measure (\<lambda>(rnd, i, g). nat \<lceil>accumSpawn g / spawnEvery\<rceil>)")
  show "wf (measure (\<lambda>(rnd, i, g). nat \<lceil>accumSpawn g / spawnEvery\<rceil>))"
    by simp
next
  fix rnd :: "nat \<Rightarrow> real" and i :: nat and g :: Game
  assume a: "spawnEvery \<le> accumSpawn g"
  have "(accumSpawn g - spawnEvery) / spawnEvery = accumSpawn g / spawnEvery - 1"
    by (simp add: spawnEvery_def field_simps)
  moreover have "1 \<le> accumSpawn g / spawnEvery"
    using a by (simp add: spawnEvery_def field_simps)
  ultimately have "nat \<lceil>(accumSpawn g - spawnEvery) / spawnEvery\<rceil> < nat \<lceil>accumSpawn g / spawnEvery\<rceil>"
    by simp
  then show "((rnd, i + 4, g\<lparr>accumSpawn := accumSpawn g - spawnEvery, crops := crops g @ [spawnCrop rnd i]\<rparr>),
              (rnd, i, g)) \<in> measure (\<lambda>(rnd, i, g). nat \<lceil>accumSpawn g / spawnEvery\<rceil>)"
    by simp
qed

function spawnPowerUps :: "(nat \<Rightarrow> real) \<Rightarrow> nat \<Rightarrow> Game \<Rightarrow> nat \<times> Game" where
  "spawnPowerUps rnd i g =
     (if accumPowerUpSpawn g \<ge> powerUpSpawnEvery
      then spawnPowerUps rnd (i + 3)
             (g\<lparr>accumPowerUpSpawn := accumPowerUpSpawn g - powerUpSpawnEvery,
                powerUps := powerUps g @ [spawnPowerUp rnd i]\<rparr>)
      else (i, g))"
  by pat_completeness auto
termination
proof (relation "measure (\<lambda>(rnd, i, g). nat \<lceil>accumPowerUpSpawn g / powerUpSpawnEvery\<rceil>)")
  show "wf (measure (\<lambda>(rnd, i, g). nat \<lceil>accumPowerUpSpawn g / powerUpSpawnEvery\<rceil>))"
    by simp
next
  fix rnd :: "nat \<Rightarrow> real" and i :: nat and g :: Game
  assume a: "powerUpSpawnEvery \<le> accumPowerUpSpawn g"
  have "(accumPowerUpSpawn g - powerUpSpawnEvery) / powerUpSpawnEvery
          = accumPowerUpSpawn g / powerUpSpawnEvery - 1"
    by (simp add: powerUpSpawnEvery_def field_simps)
  moreover have "1 \<le> accumPowerUpSpawn g / powerUpSpawnEvery"
    using a by (simp add: powerUpSpawnEvery_def field_simps)
  ultimately have "nat \<lceil>(accumPowerUpSpawn g - powerUpSpawnEvery) / powerUpSpawnEvery\<rceil>
          < nat \<lceil>accumPowerUpSpawn g / powerUpSpawnEvery\<rceil>"
    by simp
  then show "((rnd, i + 3, g\<lparr>accumPowerUpSpawn := accumPowerUpSpawn g - powerUpSpawnEvery,
                 powerUps := powerUps g @ [spawnPowerUp rnd i]\<rparr>), (rnd, i, g))
              \<in> measure (\<lambda>(rnd, i, g). nat \<lceil>accumPowerUpSpawn g / powerUpSpawnEvery\<rceil>)"
    by simp
qed

declare spawnCrops.simps [simp del] spawnPowerUps.simps [simp del]

text \<open>
  \<^verbatim>\<open>Game.update(dt)\<close>, cut at the comments of the source into the stages that
  follow the countdown: player input and movement, spawning, crop collection,
  power-up collection, clean-up, floating texts.
\<close>

definition movePlayer :: "real \<Rightarrow> Game \<Rightarrow> Game" where
  "movePlayer dt g =
     (let g1 = g\<lparr>player := handleInput (input g) (player g)\<rparr>
      in g1\<lparr>player := Farmer_update dt (obstacles g1) (player g1)\<rparr>)"

definition spawning :: "(nat \<Rightarrow> real) \<Rightarrow> real \<Rightarrow> Game \<Rightarrow> Game" where
  "spawning rnd dt g =
     (let (i, g1) = spawnCrops rnd 0 (g\<lparr>accumSpawn := accumSpawn g + dt\<rparr>);
          (j, g2) = spawnPowerUps rnd i (g1\<lparr>accumPowerUpSpawn := accumPowerUpSpawn g1 + dt\<rparr>)
      in g2)"

definition scytheHit :: "Farmer \<Rightarrow> Crop \<Rightarrow> bool" where
  "scytheHit p c =
     (let scytheRange = 80;
          dx = (x p + w p / 2) - (x c + w c / 2);
          dy = (y p + h p / 2) - (y c + h c / 2)
      in sqrt (dx * dx + dy * dy) \<le> scytheRange)"

definition collectedCrops :: "Game \<Rightarrow> Crop list" where
  "collectedCrops g =
     (if hasScythe (player g) then filter (\<lambda>c. scytheHit (player g) c) (crops g)
      else filter (\<lambda>c. aabb (player g) c) (crops g))"

definition pointText :: "Crop \<Rightarrow> PointText" where
  "pointText c =
     \<lparr>tx = x c + w c / 2, ty = y c, points = cvalue c, life = 1, tcolor = headColor (cdata c)\<rparr>"

text \<open>
  The elements of \<^verbatim>\<open>collectedCrops\<close> are the objects of \<^verbatim>\<open>this.crops\<close>
  themselves, so setting \<^verbatim>\<open>c.dead\<close> on them marks them in \<^verbatim>\<open>this.crops\<close>.
\<close>

definition collectCrops :: "Game \<Rightarrow> Game" where
  "collectCrops g =
     (let collected = collectedCrops g
      in if length collected \<noteq> 0 then
           (let g1 = g\<lparr>crops := map (\<lambda>c. if c \<in> set collected then c\<lparr>dead := True\<rparr> else c) (crops g),
                       pointTexts := pointTexts g @ map pointText collected\<rparr>;
                pts = foldl (\<lambda>sum c. sum + cvalue c) 0 collected;
                g2 = g1\<lparr>score := score g1 + pts\<rparr>
            in if score g2 \<ge> goal g2 then g2\<lparr>state := WIN\<rparr> else g2)
         else g)"

definition collectPowerUps :: "Game \<Rightarrow> Game" where
  "collectPowerUps g =
     (let collected = filter (\<lambda>p. aabb (player g) p) (powerUps g)
      in if length collected \<noteq> 0 then
           g\<lparr>powerUps := map (\<lambda>p. if p \<in> set collected then p\<lparr>dead := True\<rparr> else p) (powerUps g),
             player := foldl (\<lambda>f p. addPowerUp p f) (player g) collected\<rparr>
         else g)"

definition cleanUp :: "real \<Rightarrow> Game \<Rightarrow> Game" where
  "cleanUp dt g =
     (let g1 = g\<lparr>crops := filter (\<lambda>c. \<not> dead c) (crops g)\<rparr>;
          g2 = g1\<lparr>powerUps := filter (\<lambda>p. \<not> dead p) (powerUps g1)\<rparr>;
          g3 = g2\<lparr>crops := map (Crop_update dt) (crops g2)\<rparr>
      in g3\<lparr>powerUps := map (PowerUp_update dt) (powerUps g3)\<rparr>)"

definition ageTexts :: "real \<Rightarrow> Game \<Rightarrow> Game" where
  "ageTexts dt g =
     g\<lparr>pointTexts :=
         filter (\<lambda>pt. life pt > 0)
           (map (\<lambda>pt. pt\<lparr>life := life pt - dt * 2, ty := ty pt - dt * 30\<rparr>) (pointTexts g))\<rparr>"

definition update :: "(nat \<Rightarrow> real) \<Rightarrow> real \<Rightarrow> Game \<Rightarrow> Game" where
  "update rnd dt g =
     (if state g \<noteq> PLAYING then g
      else
        (let g1 = g\<lparr>timeLeft := clamp (timeLeft g - dt) 0 GAME_LEN\<rparr>
         in if timeLeft g1 \<le> 0
            then g1\<lparr>state := (if score g1 \<ge> goal g1 then WIN else GAME_OVER)\<rparr>
            else ageTexts dt (cleanUp dt (collectPowerUps (collectCrops
                   (spawning rnd dt (movePlayer dt g1)))))))"

text \<open>The frame callback \<^verbatim>\<open>this.tick\<close> at time stamp \<open>ts\<close>, without the rendering.\<close>

definition tick :: "(nat \<Rightarrow> real) \<Rightarrow> real \<Rightarrow> Game \<Rightarrow> Game" where
  "tick rnd ts g =
     (let dt = min ((ts - lastTime g) / 1000) (33 / 1000)
      in update rnd dt (g\<lparr>lastTime := ts\<rparr>))"

text \<open>
  The states the program can be in: the constructed game, and the result of any command,
  key event or frame on such a state. \<^verbatim>\<open>Math.random()\<close> returns a value in
  \<open>[0, 1)\<close>. A frame is taken both as \<open>tick\<close> and as \<open>update\<close> with any elapsed time.
\<close>

definition randomSource :: "(nat \<Rightarrow> real) \<Rightarrow> bool" where
  "randomSource rnd \<longleftrightarrow> (\<forall>i. 0 \<le> rnd i \<and> rnd i < 1)"

inductive reachable :: "Game \<Rightarrow> bool" where
  r_new: "reachable Game_new"
| r_start: "reachable g \<Longrightarrow> reachable (start now g)"
| r_reset: "reachable g \<Longrightarrow> reachable (reset now g)"
| r_togglePause: "reachable g \<Longrightarrow> reachable (togglePause g)"
| r_keyDown: "reachable g \<Longrightarrow> reachable (onKeyDown k g)"
| r_keyUp: "reachable g \<Longrightarrow> reachable (onKeyUp k g)"
| r_update: "reachable g \<Longrightarrow> randomSource rnd \<Longrightarrow> reachable (update rnd dt g)"
| r_tick: "reachable g \<Longrightarrow> randomSource rnd \<Longrightarrow> reachable (tick rnd ts g)"

text \<open>A run of frames, each with its random source and its elapsed time.\<close>

definition frames :: "((nat \<Rightarrow> real) \<times> real) list \<Rightarrow> Game \<Rightarrow> Game" where
  "frames fs g = foldl (\<lambda>g' f. update (fst f) (snd f) g') g fs"

text \<open>
  The state of a playing frame when crop collection begins: the countdown has been
  taken, the player has moved and the crops and power-ups of this frame are spawned.
\<close>

definition beforeCollection :: "(nat \<Rightarrow> real) \<Rightarrow> real \<Rightarrow> Game \<Rightarrow> Game" where
  "beforeCollection rnd dt g =
     spawning rnd dt (movePlayer dt (g\<lparr>timeLeft := clamp (timeLeft g - dt) 0 GAME_LEN\<rparr>))"

section \<open>Invariants and the words of the specification\<close>

text \<open>
  What one pass of \<^verbatim>\<open>updatePowerUps\<close> leaves of a mapping: every timer is
  decreased by \<open>dt\<close> and the entries whose timer is then positive are kept, in order.
\<close>

definition agedEntries :: "real \<Rightarrow> PowerMap \<Rightarrow> PowerMap" where
  "agedEntries dt m =
     filter (\<lambda>e. 0 < ptimeLeft (snd e))
       (map (\<lambda>e. (fst e, (snd e)\<lparr>ptimeLeft := ptimeLeft (snd e) - dt\<rparr>)) m)"

text \<open>Objects as their constructors build them and as the frame keeps them.\<close>

definition cropOk :: "Crop \<Rightarrow> bool" where
  "cropOk c \<longleftrightarrow>
     w c = 20 \<and> h c = 26 \<and> \<not> dead c \<and>
     cdata c = cropData (ctype c) \<and> cvalue c = dvalue (cropData (ctype c))"

definition powerUpOk :: "PowerUp \<Rightarrow> bool" where
  "powerUpOk p \<longleftrightarrow>
     w p = 24 \<and> h p = 24 \<and> \<not> dead p \<and> duration p = 8 \<and> pdata p = powerData (ptype p)"

definition entryOk :: "PowerType \<times> Active \<Rightarrow> bool" where
  "entryOk e \<longleftrightarrow> 0 < ptimeLeft (snd e) \<and> adata (snd e) = powerData (fst e)"

text \<open>
  The player's power-up state is consistent: one entry per kind, no entry whose timer
  has run out, and no effect without its entry.
\<close>

definition powerUpsConsistent :: "Farmer \<Rightarrow> bool" where
  "powerUpsConsistent f \<longleftrightarrow>
     distinct (map fst (activePowerUps f)) \<and>
     list_all entryOk (activePowerUps f) \<and>
     (hasScythe f \<longrightarrow> map_has Scythe (activePowerUps f)) \<and>
     (speed f = baseSpeed f \<or>
      (map_has Speed (activePowerUps f) \<and> speed f = baseSpeed f * (18 / 10)))"

definition farmerOk :: "Farmer \<Rightarrow> bool" where
  "farmerOk f \<longleftrightarrow> w f = 34 \<and> h f = 34 \<and> baseSpeed f = 260 \<and> powerUpsConsistent f"

definition gameOk :: "Game \<Rightarrow> bool" where
  "gameOk g \<longleftrightarrow>
     farmerOk (player g) \<and>
     list_all cropOk (crops g) \<and>
     list_all powerUpOk (powerUps g) \<and>
     0 \<le> timeLeft g \<and> timeLeft g \<le> GAME_LEN \<and>
     goal g = GOAL \<and> 0 \<le> score g"

text \<open>
  The specification's two ways of matching a crop: its centre lies within a radius of
  the player's centre (the closed disc: squared distance at most the squared radius),
  or its bounding box overlaps the player's (the two open rectangles share a point).
\<close>

definition centre :: "'a Entity_scheme \<Rightarrow> real \<times> real" where
  "centre e = (x e + w e / 2, y e + h e / 2)"

definition centreWithin :: "real \<Rightarrow> 'a Entity_scheme \<Rightarrow> 'b Entity_scheme \<Rightarrow> bool" where
  "centreWithin r a b \<longleftrightarrow>
     (fst (centre a) - fst (centre b))\<^sup>2 + (snd (centre a) - snd (centre b))\<^sup>2 \<le> r\<^sup>2"

definition boxesOverlap :: "'a Entity_scheme \<Rightarrow> 'b Entity_scheme \<Rightarrow> bool" where
  "boxesOverlap a b \<longleftrightarrow>
     (\<exists>px py. x a < px \<and> px < x a + w a \<and> y a < py \<and> py < y a + h a \<and>
              x b < px \<and> px < x b + w b \<and> y b < py \<and> py < y b + h b)"

text \<open>
  A spawn position: both coordinates are an integer multiple of the tile size, one tile
  further, and lie in \<open>[TILE, WIDTH - TILE)\<close> and \<open>[TILE, HEIGHT - TILE)\<close>.
\<close>

definition onGrid :: "'a Entity_scheme \<Rightarrow> bool" where
  "onGrid e \<longleftrightarrow>
     (\<exists>m n :: int. x e = of_int m * TILE + TILE \<and> y e = of_int n * TILE + TILE) \<and>
     TILE \<le> x e \<and> x e < WIDTH - TILE \<and> TILE \<le> y e \<and> y e < HEIGHT - TILE"

text \<open>All crops and power-ups of a game are at spawn positions.\<close>

definition gridOk :: "Game \<Rightarrow> bool" where
  "gridOk g \<longleftrightarrow> list_all onGrid (crops g) \<and> list_all onGrid (powerUps g)"

text \<open>
  The move the player proposes in a frame: the velocity applied to the position for the
  elapsed time, clamped to the playfield. \<open>overlapsAny\<close> is the test of
  \<^verbatim>\<open>game.obstacles.some(o => aabb(this, o))\<close>.
\<close>

definition proposedMove :: "real \<Rightarrow> Farmer \<Rightarrow> Farmer" where
  "proposedMove dt f =
     f\<lparr>x := clamp (x f + vx f * dt) 0 (WIDTH - w f),
       y := clamp (y f + vy f * dt) 0 (HEIGHT - h f)\<rparr>"

definition overlapsAny :: "'a Entity_scheme \<Rightarrow> Scarecrow list \<Rightarrow> bool" where
  "overlapsAny e obs = list_ex (\<lambda>ob. aabb e ob) obs"

section \<open>Concrete inputs\<close>

text \<open>
  States and random sources at which the theorems below are evaluated. \<open>pickedUp\<close> is
  reached from the constructed game by a start, a frame of twelve seconds that spawns a
  scythe power-up, a key press and two frames that walk the player onto it.
\<close>

definition rndZero :: "nat \<Rightarrow> real" where
  "rndZero i = 0"

definition rndHalf :: "nat \<Rightarrow> real" where
  "rndHalf i = 1 / 2"

definition playing0 :: Game where
  "playing0 = start 0 Game_new"

definition paused0 :: Game where
  "paused0 = togglePause playing0"

definition oneApple :: Game where
  "oneApple = playing0\<lparr>score := 10, crops := [Crop_new 420 450 goldenApple 0]\<rparr>"

definition besideScarecrow :: Game where
  "besideScarecrow =
     playing0\<lparr>player := Farmer_new 160 230, input := \<lparr>keys = {''ArrowRight''}\<rparr>\<rparr>"

definition fiveApples :: Game where
  "fiveApples =
     playing0\<lparr>crops := [Crop_new 420 450 goldenApple 0, Crop_new 450 450 goldenApple 0,
                         Crop_new 420 480 goldenApple 0, Crop_new 450 480 goldenApple 0,
                         Crop_new 450 480 goldenApple 0]\<rparr>"

definition boostEnding :: Game where
  "boostEnding =
     playing0\<lparr>player := (Farmer_new 433 460)
                  \<lparr>speed := 468,
                    activePowerUps := [(Speed, \<lparr>ptimeLeft = 1 / 100, adata = powerData Speed\<rparr>)]\<rparr>,
               input := \<lparr>keys = {''ArrowRight''}\<rparr>\<rparr>"

definition scytheActive :: Game where
  "scytheActive =
     playing0\<lparr>player := (Farmer_new 433 460)
                  \<lparr>activePowerUps := [(Scythe, \<lparr>ptimeLeft = 8, adata = powerData Scythe\<rparr>)]\<rparr>,
               crops := [Crop_new 390 420 wheat 0, Crop_new 30 30 wheat 0]\<rparr>"

definition scytheEnding :: Game where
  "scytheEnding =
     playing0\<lparr>player := (Farmer_new 433 460)
                  \<lparr>activePowerUps := [(Scythe, \<lparr>ptimeLeft = 1 / 100, adata = powerData Scythe\<rparr>)],
                    hasScythe := True\<rparr>,
               crops := [Crop_new 390 420 wheat 0, Crop_new 30 30 wheat 0]\<rparr>"

definition rndPower :: "nat \<Rightarrow> real" where
  "rndPower i = (if i < 60 then 0 else 1 / 2)"

definition spawned12 :: Game where
  "spawned12 = update rndPower 12 playing0"

definition arrived :: Game where
  "arrived = update rndZero (7 / 10) (onKeyDown ''ArrowUp'' spawned12)"

definition pickedUp :: Game where
  "pickedUp = update rndZero (1 / 100) arrived"

section \<open>Lemmas about the frame\<close>

subsection \<open>Fields a stage leaves alone\<close>

lemma spawnCrops_fields:
  "state (snd (spawnCrops rnd i g)) = state g \<and>
   player (snd (spawnCrops rnd i g)) = player g \<and>
   powerUps (snd (spawnCrops rnd i g)) = powerUps g \<and>
   obstacles (snd (spawnCrops rnd i g)) = obstacles g \<and>
   pointTexts (snd (spawnCrops rnd i g)) = pointTexts g \<and>
   lastTime (snd (spawnCrops rnd i g)) = lastTime g \<and>
   timeLeft (snd (spawnCrops rnd i g)) = timeLeft g \<and>
   accumPowerUpSpawn (snd (spawnCrops rnd i g)) = accumPowerUpSpawn g \<and>
   score (snd (spawnCrops rnd i g)) = score g \<and>
   goal (snd (spawnCrops rnd i g)) = goal g \<and>
   input (snd (spawnCrops rnd i g)) = input g"
proof (induction rnd i g rule: spawnCrops.induct)
  case (1 rnd i g)
  show ?case
  proof (cases "spawnEvery \<le> accumSpawn g")
    case True
    with 1 show ?thesis by (subst (1 2 3 4 5 6 7 8 9 10 11) spawnCrops.simps) simp
  next
    case False
    then show ?thesis by (simp add: spawnCrops.simps)
  qed
qed

lemma spawnPowerUps_fields:
  "state (snd (spawnPowerUps rnd i g)) = state g \<and>
   player (snd (spawnPowerUps rnd i g)) = player g \<and>
   crops (snd (spawnPowerUps rnd i g)) = crops g \<and>
   obstacles (snd (spawnPowerUps rnd i g)) = obstacles g \<and>
   pointTexts (snd (spawnPowerUps rnd i g)) = pointTexts g \<and>
   lastTime (snd (spawnPowerUps rnd i g)) = lastTime g \<and>
   timeLeft (snd (spawnPowerUps rnd i g)) = timeLeft g \<and>
   accumSpawn (snd (spawnPowerUps rnd i g)) = accumSpawn g \<and>
   score (snd (spawnPowerUps rnd i g)) = score g \<and>
   goal (snd (spawnPowerUps rnd i g)) = goal g \<and>
   input (snd (spawnPowerUps rnd i g)) = input g"
proof (induction rnd i g rule: spawnPowerUps.induct)
  case (1 rnd i g)
  show ?case
  proof (cases "powerUpSpawnEvery \<le> accumPowerUpSpawn g")
    case True
    with 1 show ?thesis by (subst (1 2 3 4 5 6 7 8 9 10 11) spawnPowerUps.simps) simp
  next
    case False
    then show ?thesis by (simp add: spawnPowerUps.simps)
  qed
qed

lemma spawning_fields:
  "state (spawning rnd dt g) = state g \<and>
   player (spawning rnd dt g) = player g \<and>
   obstacles (spawning rnd dt g) = obstacles g \<and>
   pointTexts (spawning rnd dt g) = pointTexts g \<and>
   lastTime (spawning rnd dt g) = lastTime g \<and>
   timeLeft (spawning rnd dt g) = timeLeft g \<and>
   score (spawning rnd dt g) = score g \<and>
   goal (spawning rnd dt g) = goal g \<and>
   input (spawning rnd dt g) = input g"
  using spawnCrops_fields [of rnd 0 "g\<lparr>accumSpawn := accumSpawn g + dt\<rparr>"]
        spawnPowerUps_fields [of rnd "fst (spawnCrops rnd 0 (g\<lparr>accumSpawn := accumSpawn g + dt\<rparr>))"
          "(snd (spawnCrops rnd 0 (g\<lparr>accumSpawn := accumSpawn g + dt\<rparr>)))\<lparr>accumPowerUpSpawn := 
            accumPowerUpSpawn (snd (spawnCrops rnd 0 (g\<lparr>accumSpawn := accumSpawn g + dt\<rparr>))) + dt\<rparr>"]
  by (simp add: spawning_def split_beta Let_def)


lemma movePlayer_fields:
  "state (movePlayer dt g) = state g \<and>
   crops (movePlayer dt g) = crops g \<and>
   powerUps (movePlayer dt g) = powerUps g \<and>
   obstacles (movePlayer dt g) = obstacles g \<and>
   pointTexts (movePlayer dt g) = pointTexts g \<and>
   lastTime (movePlayer dt g) = lastTime g \<and>
   timeLeft (movePlayer dt g) = timeLeft g \<and>
   accumSpawn (movePlayer dt g) = accumSpawn g \<and>
   accumPowerUpSpawn (movePlayer dt g) = accumPowerUpSpawn g \<and>
   score (movePlayer dt g) = score g \<and>
   goal (movePlayer dt g) = goal g \<and>
   input (movePlayer dt g) = input g"
  by (simp add: movePlayer_def Let_def)

lemma collectCrops_fields:
  "player (collectCrops g) = player g \<and>
   powerUps (collectCrops g) = powerUps g \<and>
   obstacles (collectCrops g) = obstacles g \<and>
   lastTime (collectCrops g) = lastTime g \<and>
   timeLeft (collectCrops g) = timeLeft g \<and>
   accumSpawn (collectCrops g) = accumSpawn g \<and>
   accumPowerUpSpawn (collectCrops g) = accumPowerUpSpawn g \<and>
   goal (collectCrops g) = goal g \<and>
   input (collectCrops g) = input g"
  by (simp add: collectCrops_def Let_def)

lemma collectPowerUps_fields:
  "state (collectPowerUps g) = state g \<and>
   crops (collectPowerUps g) = crops g \<and>
   obstacles (collectPowerUps g) = obstacles g \<and>
   pointTexts (collectPowerUps g) = pointTexts g \<and>
   lastTime (collectPowerUps g) = lastTime g \<and>
   timeLeft (collectPowerUps g) = timeLeft g \<and>
   accumSpawn (collectPowerUps g) = accumSpawn g \<and>
   accumPowerUpSpawn (collectPowerUps g) = accumPowerUpSpawn g \<and>
   score (collectPowerUps g) = score g \<and>
   goal (collectPowerUps g) = goal g \<and>
   input (collectPowerUps g) = input g"
  by (simp add: collectPowerUps_def Let_def)

lemma cleanUp_fields:
  "state (cleanUp dt g) = state g \<and>
   player (cleanUp dt g) = player g \<and>
   obstacles (cleanUp dt g) = obstacles g \<and>
   pointTexts (cleanUp dt g) = pointTexts g \<and>
   lastTime (cleanUp dt g) = lastTime g \<and>
   timeLeft (cleanUp dt g) = timeLeft g \<and>
   accumSpawn (cleanUp dt g) = accumSpawn g \<and>
   accumPowerUpSpawn (cleanUp dt g) = accumPowerUpSpawn g \<and>
   score (cleanUp dt g) = score g \<and>
   goal (cleanUp dt g) = goal g \<and>
   input (cleanUp dt g) = input g"
  by (simp add: cleanUp_def Let_def)

lemma ageTexts_fields:
  "state (ageTexts dt g) = state g \<and>
   player (ageTexts dt g) = player g \<and>
   crops (ageTexts dt g) = crops g \<and>
   powerUps (ageTexts dt g) = powerUps g \<and>
   obstacles (ageTexts dt g) = obstacles g \<and>
   lastTime (ageTexts dt g) = lastTime g \<and>
   timeLeft (ageTexts dt g) = timeLeft g \<and>
   accumSpawn (ageTexts dt g) = accumSpawn g \<and>
   accumPowerUpSpawn (ageTexts dt g) = accumPowerUpSpawn g \<and>
   score (ageTexts dt g) = score g \<and>
   goal (ageTexts dt g) = goal g \<and>
   input (ageTexts dt g) = input g"
  by (simp add: ageTexts_def)

text \<open>The two ways a frame in state PLAYING goes.\<close>

lemma update_idle: "state g \<noteq> PLAYING \<Longrightarrow> update rnd dt g = g"
  by (simp add: update_def)

lemma update_timeUp:
  "state g = PLAYING \<Longrightarrow> clamp (timeLeft g - dt) 0 GAME_LEN \<le> 0 \<Longrightarrow>
   update rnd dt g =
     g\<lparr>timeLeft := clamp (timeLeft g - dt) 0 GAME_LEN,
       state := (if score g \<ge> goal g then WIN else GAME_OVER)\<rparr>"
  by (simp add: update_def Let_def)

lemma update_play:
  "state g = PLAYING \<Longrightarrow> 0 < clamp (timeLeft g - dt) 0 GAME_LEN \<Longrightarrow>
   update rnd dt g =
     ageTexts dt (cleanUp dt (collectPowerUps (collectCrops
       (spawning rnd dt (movePlayer dt (g\<lparr>timeLeft := clamp (timeLeft g - dt) 0 GAME_LEN\<rparr>))))))"
  by (simp add: update_def Let_def)

lemma update_timeLeft:
  "state g = PLAYING \<Longrightarrow> timeLeft (update rnd dt g) = clamp (timeLeft g - dt) 0 GAME_LEN"
proof (cases "0 < clamp (timeLeft g - dt) 0 GAME_LEN")
  case True
  assume "state g = PLAYING"
  with True show ?thesis
    by (simp add: update_play ageTexts_fields cleanUp_fields collectPowerUps_fields
        collectCrops_fields spawning_fields movePlayer_fields)
next
  case False
  assume "state g = PLAYING"
  with False show ?thesis by (simp add: update_timeUp)
qed

subsection \<open>The mapping\<close>

lemma map_set_keys: "fst ` set (map_set k v m) = insert k (fst ` set m)"
  by (induction m) auto

lemma map_set_distinct: "distinct (map fst m) \<Longrightarrow> distinct (map fst (map_set k v m))"
proof (induction m)
  case Nil
  then show ?case by simp
next
  case (Cons e m)
  have "fst e \<notin> fst ` set (map_set k v m)" if "fst e \<noteq> k"
    using that Cons.prems by (simp add: map_set_keys)
  with Cons show ?case by auto
qed

lemma map_set_all: "list_all P m \<Longrightarrow> P (k, v) \<Longrightarrow> list_all P (map_set k v m)"
  by (induction m) auto

lemma map_of_map_set: "map_of (map_set k v m) = (map_of m)(k \<mapsto> v)"
  by (induction m) (auto simp: fun_eq_iff)

lemma map_set_length:
  "length (map_set k v m) = (if k \<in> fst ` set m then length m else Suc (length m))"
  by (induction m) auto

lemma map_set_mid:
  "k \<notin> fst ` set pre \<Longrightarrow> map_set k v (pre @ (k, u) # rest) = pre @ (k, v) # rest"
  by (induction pre) auto

lemma filter_other_keys: "k \<notin> fst ` set m \<Longrightarrow> filter (\<lambda>e. fst e \<noteq> k) m = m"
  by (induction m) auto

lemma map_delete_mid:
  "k \<notin> fst ` set pre \<Longrightarrow> k \<notin> fst ` set rest \<Longrightarrow>
   map_delete k (pre @ (k, v) # rest) = pre @ rest"
  by (simp add: map_delete_def filter_other_keys)

lemma map_has_iff: "map_has k m \<longleftrightarrow> k \<in> fst ` set m"
  by (auto simp: map_has_def list_ex_iff)

lemma agedEntries_keys: "fst ` set (agedEntries dt m) \<subseteq> fst ` set m"
  by (force simp: agedEntries_def)

lemma agedEntries_Cons:
  "agedEntries dt (e # m) =
     (if 0 < ptimeLeft (snd e) - dt
      then (fst e, (snd e)\<lparr>ptimeLeft := ptimeLeft (snd e) - dt\<rparr>) # agedEntries dt m
      else agedEntries dt m)"
  by (simp add: agedEntries_def)

lemma agedEntries_distinct: "distinct (map fst m) \<Longrightarrow> distinct (map fst (agedEntries dt m))"
proof (induction m)
  case Nil
  then show ?case by (simp add: agedEntries_def)
next
  case (Cons e m)
  then show ?case using agedEntries_keys [of dt m] by (auto simp: agedEntries_Cons)
qed

subsection \<open>updatePowerUps\<close>

lemma powerUpStep_fields:
  "x (powerUpStep dt f e) = x f \<and> y (powerUpStep dt f e) = y f \<and>
   w (powerUpStep dt f e) = w f \<and> h (powerUpStep dt f e) = h f \<and>
   dead (powerUpStep dt f e) = dead f \<and> baseSpeed (powerUpStep dt f e) = baseSpeed f \<and>
   vx (powerUpStep dt f e) = vx f \<and> vy (powerUpStep dt f e) = vy f \<and>
   color (powerUpStep dt f e) = color f"
  by (simp add: powerUpStep_def Let_def)

lemma foldl_powerUpStep_fields:
  "x (foldl (powerUpStep dt) f m) = x f \<and> y (foldl (powerUpStep dt) f m) = y f \<and>
   w (foldl (powerUpStep dt) f m) = w f \<and> h (foldl (powerUpStep dt) f m) = h f \<and>
   dead (foldl (powerUpStep dt) f m) = dead f \<and>
   baseSpeed (foldl (powerUpStep dt) f m) = baseSpeed f \<and>
   vx (foldl (powerUpStep dt) f m) = vx f \<and> vy (foldl (powerUpStep dt) f m) = vy f \<and>
   color (foldl (powerUpStep dt) f m) = color f"
  by (induction m arbitrary: f) (simp_all add: powerUpStep_fields)

lemma updatePowerUps_fields:
  "x (updatePowerUps dt f) = x f \<and> y (updatePowerUps dt f) = y f \<and>
   w (updatePowerUps dt f) = w f \<and> h (updatePowerUps dt f) = h f \<and>
   dead (updatePowerUps dt f) = dead f \<and> baseSpeed (updatePowerUps dt f) = baseSpeed f \<and>
   vx (updatePowerUps dt f) = vx f \<and> vy (updatePowerUps dt f) = vy f \<and>
   color (updatePowerUps dt f) = color f"
  by (simp add: updatePowerUps_def foldl_powerUpStep_fields)

text \<open>
  The loop of \<^verbatim>\<open>updatePowerUps\<close> after the entries \<open>pre\<close> have been visited and
  kept, with \<open>todo\<close> still to visit.
\<close>

lemma foldl_powerUpStep:
  "distinct (map fst (pre @ todo)) \<Longrightarrow> activePowerUps f = pre @ todo \<Longrightarrow>
   activePowerUps (foldl (powerUpStep dt) f todo) = pre @ agedEntries dt todo \<and>
   speed (foldl (powerUpStep dt) f todo) =
     (case map_of (agedEntries dt todo) Speed of
        Some a \<Rightarrow> baseSpeed f * the (multiplier (adata a)) | None \<Rightarrow> speed f) \<and>
   hasScythe (foldl (powerUpStep dt) f todo) =
     (hasScythe f \<or> map_has Scythe (agedEntries dt todo))"
proof (induction todo arbitrary: f pre)
  case Nil
  then show ?case by (simp add: agedEntries_def map_has_def)
next
  case (Cons e todo)
  obtain k a where e: "e = (k, a)" by (cases e)
  let ?a = "a\<lparr>ptimeLeft := ptimeLeft a - dt\<rparr>"
  from Cons.prems e have kpre: "k \<notin> fst ` set pre" and krest: "k \<notin> fst ` set todo"
    by auto
  have set1: "map_set k ?a (activePowerUps f) = pre @ (k, ?a) # todo"
    using Cons.prems(2) e kpre by (simp add: map_set_mid)
  have kaged: "k \<notin> fst ` set (agedEntries dt todo)"
    using krest agedEntries_keys [of dt todo] by blast
  then have none: "map_of (agedEntries dt todo) k = None"
    by (simp add: map_of_eq_None_iff)
  have nohas: "\<not> map_has k (agedEntries dt todo)"
    using kaged by (simp add: map_has_iff)
  show ?case
  proof (cases "ptimeLeft a - dt \<le> 0")
    case True
    let ?f1 = "f\<lparr>activePowerUps := pre @ todo\<rparr>"
    have step: "powerUpStep dt f e = ?f1"
      using True e set1 kpre krest by (simp add: powerUpStep_def Let_def map_delete_mid)
    have d: "distinct (map fst (pre @ todo))" using Cons.prems(1) by simp
    from Cons.IH [of pre ?f1, OF d] True e step show ?thesis
      by (simp add: agedEntries_Cons cong: option.case_cong)
  next
    case False
    let ?f1 = "powerUpStep dt f e"
    have act: "activePowerUps ?f1 = (pre @ [(k, ?a)]) @ todo"
      using False e set1 by (cases k) (simp_all add: powerUpStep_def Let_def)
    have d: "distinct (map fst ((pre @ [(k, ?a)]) @ todo))" using Cons.prems(1) e by simp
    have bs: "baseSpeed ?f1 = baseSpeed f" by (simp add: powerUpStep_fields)
    have sp: "speed ?f1 = (if k = Speed then baseSpeed f * the (multiplier (adata a)) else speed f)"
      using False e by (cases k) (simp_all add: powerUpStep_def Let_def)
    have hs: "hasScythe ?f1 = (hasScythe f \<or> k = Scythe)"
      using False e by (cases k) (simp_all add: powerUpStep_def Let_def)
    from Cons.IH [of "pre @ [(k, ?a)]" ?f1, OF d act]
    have ih: "activePowerUps (foldl (powerUpStep dt) ?f1 todo) = (pre @ [(k, ?a)]) @ agedEntries dt todo"
      "speed (foldl (powerUpStep dt) ?f1 todo) =
         (case map_of (agedEntries dt todo) Speed of
            Some a \<Rightarrow> baseSpeed ?f1 * the (multiplier (adata a)) | None \<Rightarrow> speed ?f1)"
      "hasScythe (foldl (powerUpStep dt) ?f1 todo) =
         (hasScythe ?f1 \<or> map_has Scythe (agedEntries dt todo))"
      by simp_all
    have aged: "agedEntries dt (e # todo) = (k, ?a) # agedEntries dt todo"
      using False e by (simp add: agedEntries_Cons)
    show ?thesis
    proof (intro conjI)
      show "activePowerUps (foldl (powerUpStep dt) f (e # todo)) = pre @ agedEntries dt (e # todo)"
        using ih(1) aged by simp
      show "speed (foldl (powerUpStep dt) f (e # todo)) =
         (case map_of (agedEntries dt (e # todo)) Speed of
            Some a \<Rightarrow> baseSpeed f * the (multiplier (adata a)) | None \<Rightarrow> speed f)"
      proof (cases "k = Speed")
        case True
        with none ih(2) sp aged show ?thesis by (simp cong: option.case_cong)
      next
        case False
        with ih(2) sp bs aged show ?thesis by (simp cong: option.case_cong)
      qed
      show "hasScythe (foldl (powerUpStep dt) f (e # todo)) =
         (hasScythe f \<or> map_has Scythe (agedEntries dt (e # todo)))"
        using ih(3) hs aged nohas by (auto simp: map_has_def)
    qed
  qed
qed

lemma updatePowerUps_result:
  assumes "distinct (map fst (activePowerUps f))"
  shows "activePowerUps (updatePowerUps dt f) = agedEntries dt (activePowerUps f)"
    and "speed (updatePowerUps dt f) =
     (case map_of (agedEntries dt (activePowerUps f)) Speed of
        Some a \<Rightarrow> baseSpeed f * the (multiplier (adata a)) | None \<Rightarrow> baseSpeed f)"
    and "hasScythe (updatePowerUps dt f) = map_has Scythe (agedEntries dt (activePowerUps f))"
  using foldl_powerUpStep [of "[]" "activePowerUps f" "f\<lparr>speed := baseSpeed f, hasScythe := False\<rparr>" dt] assms
  by (simp_all add: updatePowerUps_def cong: option.case_cong)

subsection \<open>The invariant of the reachable states\<close>

lemma cropData_value: "dvalue (cropData t) = 1 \<or> dvalue (cropData t) = 3 \<or> dvalue (cropData t) = 5"
  by (cases t) (simp_all add: cropData_def)

lemma cropOk_value: "cropOk c \<Longrightarrow> 0 < cvalue c"
  using cropData_value [of "ctype c"] by (auto simp: cropOk_def)

lemma cropOk_Crop_new: "cropOk (Crop_new gx gy t r)"
  by (simp add: cropOk_def Crop_new_def)

lemma cropOk_spawnCrop: "cropOk (spawnCrop rnd i)"
  by (simp add: spawnCrop_def Let_def cropOk_Crop_new)

lemma powerUpOk_spawnPowerUp: "powerUpOk (spawnPowerUp rnd i)"
  by (simp add: spawnPowerUp_def Let_def powerUpOk_def PowerUp_new_def)

lemma cropOk_update: "cropOk c \<Longrightarrow> cropOk (Crop_update dt c)"
  by (simp add: cropOk_def Crop_update_def)

lemma powerUpOk_update: "powerUpOk p \<Longrightarrow> powerUpOk (PowerUp_update dt p)"
  by (simp add: powerUpOk_def PowerUp_update_def)

lemma spawnCrops_crops:
  "list_all cropOk (crops g) \<Longrightarrow> list_all cropOk (crops (snd (spawnCrops rnd i g)))"
proof (induction rnd i g rule: spawnCrops.induct)
  case (1 rnd i g)
  show ?case
  proof (cases "spawnEvery \<le> accumSpawn g")
    case True
    with 1 show ?thesis by (subst spawnCrops.simps) (simp add: cropOk_spawnCrop)
  next
    case False
    with 1 show ?thesis by (simp add: spawnCrops.simps)
  qed
qed

lemma spawnPowerUps_powerUps:
  "list_all powerUpOk (powerUps g) \<Longrightarrow> list_all powerUpOk (powerUps (snd (spawnPowerUps rnd i g)))"
proof (induction rnd i g rule: spawnPowerUps.induct)
  case (1 rnd i g)
  show ?case
  proof (cases "powerUpSpawnEvery \<le> accumPowerUpSpawn g")
    case True
    with 1 show ?thesis by (subst spawnPowerUps.simps) (simp add: powerUpOk_spawnPowerUp)
  next
    case False
    with 1 show ?thesis by (simp add: spawnPowerUps.simps)
  qed
qed

lemma spawning_crops:
  "list_all cropOk (crops g) \<Longrightarrow> list_all cropOk (crops (spawning rnd dt g))"
  using spawnCrops_crops [of "g\<lparr>accumSpawn := accumSpawn g + dt\<rparr>" rnd 0]
        spawnPowerUps_fields [of rnd "fst (spawnCrops rnd 0 (g\<lparr>accumSpawn := accumSpawn g + dt\<rparr>))"
          "(snd (spawnCrops rnd 0 (g\<lparr>accumSpawn := accumSpawn g + dt\<rparr>)))\<lparr>accumPowerUpSpawn := 
            accumPowerUpSpawn (snd (spawnCrops rnd 0 (g\<lparr>accumSpawn := accumSpawn g + dt\<rparr>))) + dt\<rparr>"]
  by (simp add: spawning_def split_beta Let_def)

lemma spawning_powerUps:
  "list_all powerUpOk (powerUps g) \<Longrightarrow> list_all powerUpOk (powerUps (spawning rnd dt g))"
  using spawnCrops_fields [of rnd 0 "g\<lparr>accumSpawn := accumSpawn g + dt\<rparr>"]
        spawnPowerUps_powerUps [of 
          "(snd (spawnCrops rnd 0 (g\<lparr>accumSpawn := accumSpawn g + dt\<rparr>)))\<lparr>accumPowerUpSpawn := 
            accumPowerUpSpawn (snd (spawnCrops rnd 0 (g\<lparr>accumSpawn := accumSpawn g + dt\<rparr>))) + dt\<rparr>"
           rnd "fst (spawnCrops rnd 0 (g\<lparr>accumSpawn := accumSpawn g + dt\<rparr>))"]
  by (simp add: spawning_def split_beta Let_def)

lemma farmerOk_new: "farmerOk (Farmer_new gx gy)"
  by (simp add: farmerOk_def powerUpsConsistent_def Farmer_new_def)

lemma farmerOk_handleInput: "farmerOk f \<Longrightarrow> farmerOk (handleInput inp f)"
  by (auto simp: farmerOk_def powerUpsConsistent_def handleInput_def Let_def)

lemma agedEntries_entryOk: "list_all entryOk m \<Longrightarrow> list_all entryOk (agedEntries dt m)"
  by (induction m) (auto simp: agedEntries_Cons entryOk_def agedEntries_def)

lemma consistent_updatePowerUps:
  assumes "distinct (map fst (activePowerUps f))" "list_all entryOk (activePowerUps f)"
  shows "powerUpsConsistent (updatePowerUps dt f)"
proof -
  let ?m = "agedEntries dt (activePowerUps f)"
  note r = updatePowerUps_result [OF assms(1), of dt]
  have ok: "list_all entryOk ?m" using assms(2) by (rule agedEntries_entryOk)
  have sp: "speed (updatePowerUps dt f) = baseSpeed f \<or>
            (map_has Speed ?m \<and> speed (updatePowerUps dt f) = baseSpeed f * (18 / 10))"
  proof (cases "map_of ?m Speed")
    case None
    then show ?thesis by (simp add: r(2))
  next
    case (Some a)
    then have mem: "(Speed, a) \<in> set ?m" by (rule map_of_SomeD)
    with ok have "adata a = powerData Speed"
      by (auto simp: list_all_iff entryOk_def)
    then have "the (multiplier (adata a)) = 18 / 10" by (simp add: powerData_def)
    moreover have "map_has Speed ?m" using mem by (force simp: map_has_iff)
    ultimately show ?thesis using Some by (simp add: r(2))
  qed
  show ?thesis
    using sp ok agedEntries_distinct [OF assms(1), of dt]
    by (simp add: powerUpsConsistent_def r(1) r(3) updatePowerUps_fields)
qed

lemma farmerOk_updatePowerUps: "farmerOk f \<Longrightarrow> farmerOk (updatePowerUps dt f)"
  using consistent_updatePowerUps [of f dt]
  by (simp add: farmerOk_def updatePowerUps_fields) (simp add: powerUpsConsistent_def)

lemma farmerOk_move: "farmerOk f \<Longrightarrow> farmerOk (f\<lparr>x := a, y := b\<rparr>)"
  by (auto simp: farmerOk_def powerUpsConsistent_def)

lemma farmerOk_Farmer_update: "farmerOk f \<Longrightarrow> farmerOk (Farmer_update dt obs f)"
  using farmerOk_updatePowerUps [of f dt]
  by (auto simp: Farmer_update_def Let_def farmerOk_def powerUpsConsistent_def)

lemma farmerOk_addPowerUp: "farmerOk f \<Longrightarrow> powerUpOk p \<Longrightarrow> farmerOk (addPowerUp p f)"
  by (auto simp: farmerOk_def powerUpsConsistent_def addPowerUp_def powerUpOk_def
      map_set_distinct map_set_all entryOk_def map_has_iff map_set_keys)

lemma farmerOk_addPowerUps:
  "farmerOk f \<Longrightarrow> list_all powerUpOk ps \<Longrightarrow> farmerOk (foldl (\<lambda>f p. addPowerUp p f) f ps)"
  by (induction ps arbitrary: f) (simp_all add: farmerOk_addPowerUp)

subsection \<open>Collection and clean-up\<close>

lemma foldl_cvalue: "foldl (\<lambda>sum c. sum + cvalue c) a cs = a + sum_list (map cvalue cs)"
  by (induction cs arbitrary: a) simp_all

lemma collectedCrops_set:
  "c \<in> set (collectedCrops g) \<longleftrightarrow>
     c \<in> set (crops g) \<and> (if hasScythe (player g) then scytheHit (player g) c else aabb (player g) c)"
  by (simp add: collectedCrops_def)

lemma collectedCrops_filter:
  "collectedCrops g =
     filter (\<lambda>c. if hasScythe (player g) then scytheHit (player g) c else aabb (player g) c) (crops g)"
  by (simp add: collectedCrops_def)

lemma collectCrops_score:
  "score (collectCrops g) = score g + sum_list (map cvalue (collectedCrops g))"
  by (simp add: collectCrops_def Let_def foldl_cvalue)

lemma collectCrops_state:
  "state (collectCrops g) =
     (if collectedCrops g \<noteq> [] \<and> goal g \<le> score (collectCrops g) then WIN else state g)"
  by (simp add: collectCrops_def Let_def foldl_cvalue)

lemma collectCrops_crops:
  "crops (collectCrops g) =
     map (\<lambda>c. if c \<in> set (collectedCrops g) then c\<lparr>dead := True\<rparr> else c) (crops g)"
  by (simp add: collectCrops_def Let_def)

lemma collectPowerUps_player:
  "player (collectPowerUps g) =
     foldl (\<lambda>f p. addPowerUp p f) (player g) (filter (\<lambda>p. aabb (player g) p) (powerUps g))"
  by (simp add: collectPowerUps_def Let_def)

lemma collectPowerUps_powerUps:
  "powerUps (collectPowerUps g) =
     map (\<lambda>p. if p \<in> set (filter (\<lambda>p. aabb (player g) p) (powerUps g)) then p\<lparr>dead := True\<rparr> else p)
       (powerUps g)"
proof (cases "filter (\<lambda>p. aabb (player g) p) (powerUps g) = []")
  case True
  then have "map (\<lambda>p. if p \<in> set (filter (\<lambda>p. aabb (player g) p) (powerUps g))
                       then p\<lparr>dead := True\<rparr> else p) (powerUps g) = powerUps g"
    by (intro map_idI) simp
  with True show ?thesis by (simp add: collectPowerUps_def Let_def)
next
  case False
  then show ?thesis by (simp add: collectPowerUps_def Let_def)
qed

lemma cleanUp_crops:
  "crops (cleanUp dt g) = map (Crop_update dt) (filter (\<lambda>c. \<not> dead c) (crops g))"
  by (simp add: cleanUp_def Let_def)

lemma cleanUp_powerUps:
  "powerUps (cleanUp dt g) = map (PowerUp_update dt) (filter (\<lambda>p. \<not> dead p) (powerUps g))"
  by (simp add: cleanUp_def Let_def)

text \<open>Marking the hit objects dead and filtering the dead ones out keeps the others.\<close>

lemma filter_marked:
  fixes cs :: "('a Entity_scheme) list"
  assumes "\<forall>c \<in> set cs. \<not> dead c"
  shows "filter (\<lambda>c. \<not> dead c) (map (\<lambda>c. if P c then c\<lparr>dead := True\<rparr> else c) cs)
           = filter (\<lambda>c. \<not> P c) cs"
  using assms by (induction cs) auto

lemma marked_shape:
  "list_all cropOk cs \<Longrightarrow>
   list_all cropOk (map (Crop_update dt)
     (filter (\<lambda>c. \<not> dead c) (map (\<lambda>c. if P c then c\<lparr>dead := True\<rparr> else c) cs)))"
  by (induction cs) (auto simp: cropOk_def Crop_update_def)

lemma marked_shape_powerUps:
  "list_all powerUpOk ps \<Longrightarrow>
   list_all powerUpOk (map (PowerUp_update dt)
     (filter (\<lambda>p. \<not> dead p) (map (\<lambda>p. if P p then p\<lparr>dead := True\<rparr> else p) ps)))"
  by (induction ps) (auto simp: powerUpOk_def PowerUp_update_def)

subsection \<open>The state when collection begins\<close>

lemma beforeCollection_fields:
  "state (beforeCollection rnd dt g) = state g \<and>
   player (beforeCollection rnd dt g) = Farmer_update dt (obstacles g) (handleInput (input g) (player g)) \<and>
   obstacles (beforeCollection rnd dt g) = obstacles g \<and>
   pointTexts (beforeCollection rnd dt g) = pointTexts g \<and>
   lastTime (beforeCollection rnd dt g) = lastTime g \<and>
   timeLeft (beforeCollection rnd dt g) = clamp (timeLeft g - dt) 0 GAME_LEN \<and>
   score (beforeCollection rnd dt g) = score g \<and>
   goal (beforeCollection rnd dt g) = goal g \<and>
   input (beforeCollection rnd dt g) = input g"
  by (simp add: beforeCollection_def spawning_fields movePlayer_fields)
     (simp add: movePlayer_def Let_def)

lemma update_play_stages:
  "state g = PLAYING \<Longrightarrow> 0 < clamp (timeLeft g - dt) 0 GAME_LEN \<Longrightarrow>
   update rnd dt g =
     ageTexts dt (cleanUp dt (collectPowerUps (collectCrops (beforeCollection rnd dt g))))"
  by (simp add: update_play beforeCollection_def)

lemma beforeCollection_crops:
  "list_all cropOk (crops g) \<Longrightarrow> list_all cropOk (crops (beforeCollection rnd dt g))"
  by (simp add: beforeCollection_def spawning_crops movePlayer_fields)

lemma beforeCollection_powerUps:
  "list_all powerUpOk (powerUps g) \<Longrightarrow> list_all powerUpOk (powerUps (beforeCollection rnd dt g))"
  by (simp add: beforeCollection_def spawning_powerUps movePlayer_fields)

text \<open>The fields of the state after a playing frame that the countdown does not end.\<close>

lemma update_play_fields:
  assumes "state g = PLAYING" "0 < clamp (timeLeft g - dt) 0 GAME_LEN"
  shows "player (update rnd dt g) =
           foldl (\<lambda>f p. addPowerUp p f) (player (beforeCollection rnd dt g))
             (filter (\<lambda>p. aabb (player (beforeCollection rnd dt g)) p) (powerUps (beforeCollection rnd dt g)))"
    and "crops (update rnd dt g) =
           map (Crop_update dt) (filter (\<lambda>c. \<not> dead c)
             (map (\<lambda>c. if c \<in> set (collectedCrops (beforeCollection rnd dt g)) then c\<lparr>dead := True\<rparr> else c)
                (crops (beforeCollection rnd dt g))))"
    and "powerUps (update rnd dt g) =
           map (PowerUp_update dt) (filter (\<lambda>p. \<not> dead p)
             (map (\<lambda>p. if p \<in> set (filter (\<lambda>p. aabb (player (beforeCollection rnd dt g)) p)
                                     (powerUps (beforeCollection rnd dt g)))
                       then p\<lparr>dead := True\<rparr> else p)
                (powerUps (beforeCollection rnd dt g))))"
    and "score (update rnd dt g) =
           score g + sum_list (map cvalue (collectedCrops (beforeCollection rnd dt g)))"
    and "state (update rnd dt g) =
           (if collectedCrops (beforeCollection rnd dt g) \<noteq> [] \<and> goal g \<le> score (update rnd dt g)
            then WIN else PLAYING)"
    and "obstacles (update rnd dt g) = obstacles g"
    and "goal (update rnd dt g) = goal g"
    and "input (update rnd dt g) = input g"
    and "lastTime (update rnd dt g) = lastTime g"
proof -
  note u = update_play_stages [OF assms, of rnd]
  note f = ageTexts_fields cleanUp_fields collectPowerUps_fields collectCrops_fields
  show "player (update rnd dt g) =
           foldl (\<lambda>f p. addPowerUp p f) (player (beforeCollection rnd dt g))
             (filter (\<lambda>p. aabb (player (beforeCollection rnd dt g)) p) (powerUps (beforeCollection rnd dt g)))"
    by (simp add: u f collectPowerUps_player)
  show "crops (update rnd dt g) =
           map (Crop_update dt) (filter (\<lambda>c. \<not> dead c)
             (map (\<lambda>c. if c \<in> set (collectedCrops (beforeCollection rnd dt g)) then c\<lparr>dead := True\<rparr> else c)
                (crops (beforeCollection rnd dt g))))"
    by (simp add: u f cleanUp_crops collectCrops_crops)
  show "powerUps (update rnd dt g) =
           map (PowerUp_update dt) (filter (\<lambda>p. \<not> dead p)
             (map (\<lambda>p. if p \<in> set (filter (\<lambda>p. aabb (player (beforeCollection rnd dt g)) p)
                                     (powerUps (beforeCollection rnd dt g)))
                       then p\<lparr>dead := True\<rparr> else p)
                (powerUps (beforeCollection rnd dt g))))"
    by (simp add: u f cleanUp_powerUps collectPowerUps_powerUps)
  show s: "score (update rnd dt g) =
           score g + sum_list (map cvalue (collectedCrops (beforeCollection rnd dt g)))"
    by (simp add: u f collectCrops_score beforeCollection_fields)
  show "state (update rnd dt g) =
           (if collectedCrops (beforeCollection rnd dt g) \<noteq> [] \<and> goal g \<le> score (update rnd dt g)
            then WIN else PLAYING)"
    using assms(1) by (simp add: s) (simp add: u f collectCrops_state collectCrops_score beforeCollection_fields)
  show "obstacles (update rnd dt g) = obstacles g"
    by (simp add: u f beforeCollection_fields)
  show "goal (update rnd dt g) = goal g"
    by (simp add: u f beforeCollection_fields)
  show "input (update rnd dt g) = input g"
    by (simp add: u f beforeCollection_fields)
  show "lastTime (update rnd dt g) = lastTime g"
    by (simp add: u f beforeCollection_fields)
qed

subsection \<open>Every reachable state satisfies the invariant\<close>

lemma clamp_bounds: "lo \<le> hi \<Longrightarrow> lo \<le> clamp v lo hi \<and> clamp v lo hi \<le> hi"
  by (simp add: clamp_def)

lemma gameOk_new: "gameOk Game_new"
  by (simp add: gameOk_def Game_new_def farmerOk_new GAME_LEN_def)

lemma gameOk_reset: "gameOk g \<Longrightarrow> gameOk (reset now g)"
  by (simp add: gameOk_def reset_def Let_def farmerOk_new GAME_LEN_def)

lemma gameOk_start: "gameOk g \<Longrightarrow> gameOk (start now g)"
  using gameOk_reset [of g now] by (simp add: start_def) (simp add: gameOk_def)

lemma gameOk_togglePause: "gameOk g \<Longrightarrow> gameOk (togglePause g)"
  by (simp add: togglePause_def) (simp add: gameOk_def)

lemma gameOk_onKeyDown: "gameOk g \<Longrightarrow> gameOk (onKeyDown k g)"
  using gameOk_togglePause [of g] by (simp add: onKeyDown_def Let_def) (simp add: gameOk_def)

lemma gameOk_onKeyUp: "gameOk g \<Longrightarrow> gameOk (onKeyUp k g)"
  by (simp add: onKeyUp_def gameOk_def)

lemma sum_cvalue_nonneg: "list_all cropOk cs \<Longrightarrow> 0 \<le> sum_list (map cvalue cs)"
  by (induction cs) (auto dest: cropOk_value)

lemma collectedCrops_ok: "list_all cropOk (crops g) \<Longrightarrow> list_all cropOk (collectedCrops g)"
  by (simp add: collectedCrops_def list_all_iff)

lemma gameOk_update: 
  assumes "gameOk g"
  shows "gameOk (update rnd dt g)"
proof (cases "state g = PLAYING")
  case False
  with assms show ?thesis by (simp add: update_idle)
next
  case True
  note playing = this
  have cl: "0 \<le> clamp (timeLeft g - dt) 0 GAME_LEN \<and> clamp (timeLeft g - dt) 0 GAME_LEN \<le> GAME_LEN"
    by (rule clamp_bounds) (simp add: GAME_LEN_def)
  show ?thesis
  proof (cases "0 < clamp (timeLeft g - dt) 0 GAME_LEN")
    case False
    then have "clamp (timeLeft g - dt) 0 GAME_LEN \<le> 0" by simp
    from update_timeUp [OF playing this, of rnd] assms cl show ?thesis
      by (simp add: gameOk_def)
  next
    case True
    note f = update_play_fields [OF playing True, of rnd]
    let ?b = "beforeCollection rnd dt g"
    from assms have okp: "farmerOk (player g)" and okc: "list_all cropOk (crops g)"
      and oku: "list_all powerUpOk (powerUps g)" and gl: "goal g = GOAL" and sc: "0 \<le> score g"
      by (simp_all add: gameOk_def)
    have p: "farmerOk (player ?b)"
      using okp by (simp add: beforeCollection_fields farmerOk_Farmer_update farmerOk_handleInput)
    have c: "list_all cropOk (crops ?b)" using okc by (rule beforeCollection_crops)
    have u: "list_all powerUpOk (powerUps ?b)" using oku by (rule beforeCollection_powerUps)
    have 1: "farmerOk (player (update rnd dt g))"
      unfolding f(1) using p u by (intro farmerOk_addPowerUps) (simp_all add: list_all_iff)
    have 2: "list_all cropOk (crops (update rnd dt g))"
      unfolding f(2) using c by (rule marked_shape)
    have 3: "list_all powerUpOk (powerUps (update rnd dt g))"
      unfolding f(3) using u by (rule marked_shape_powerUps)
    have 4: "0 \<le> score (update rnd dt g)"
      unfolding f(4) using sc sum_cvalue_nonneg [OF collectedCrops_ok [OF c]] by simp
    show ?thesis
      using 1 2 3 4 cl gl playing by (simp add: gameOk_def update_timeLeft f(7))
  qed
qed

lemma gameOk_tick: "gameOk g \<Longrightarrow> gameOk (tick rnd ts g)"
proof -
  assume "gameOk g"
  then have "gameOk (g\<lparr>lastTime := ts\<rparr>)" by (simp add: gameOk_def)
  then show ?thesis by (simp add: tick_def Let_def gameOk_update)
qed

lemma reachable_gameOk: "reachable g \<Longrightarrow> gameOk g"
  by (induction rule: reachable.induct)
     (simp_all add: gameOk_new gameOk_start gameOk_reset gameOk_togglePause gameOk_onKeyDown
        gameOk_onKeyUp gameOk_update gameOk_tick)

lemma gameOk_frames: "gameOk g \<Longrightarrow> gameOk (frames fs g)"
  unfolding frames_def by (induction fs arbitrary: g) (simp_all add: gameOk_update)

section \<open>Lemmas for the claims\<close>

subsection \<open>The score\<close>

lemma update_score_mono: "gameOk g \<Longrightarrow> score g \<le> score (update rnd dt g)"
proof (cases "state g = PLAYING")
  case False
  then show ?thesis by (simp add: update_idle)
next
  case True
  assume ok: "gameOk g"
  show ?thesis
  proof (cases "0 < clamp (timeLeft g - dt) 0 GAME_LEN")
    case False
    then have "clamp (timeLeft g - dt) 0 GAME_LEN \<le> 0" by simp
    from update_timeUp [OF True this, of rnd] show ?thesis by simp
  next
    case pos: True
    from ok have "list_all cropOk (crops (beforeCollection rnd dt g))"
      by (simp add: gameOk_def beforeCollection_crops)
    then have "0 \<le> sum_list (map cvalue (collectedCrops (beforeCollection rnd dt g)))"
      by (intro sum_cvalue_nonneg collectedCrops_ok)
    then show ?thesis by (simp add: update_play_fields(4) [OF True pos])
  qed
qed

lemma frames_score_mono: "gameOk g \<Longrightarrow> score g \<le> score (frames fs g)"
proof (induction fs arbitrary: g)
  case Nil
  then show ?case by (simp add: frames_def)
next
  case (Cons f fs)
  have "score g \<le> score (update (fst f) (snd f) g)" using Cons.prems by (rule update_score_mono)
  also have "\<dots> \<le> score (frames fs (update (fst f) (snd f) g))"
    using Cons.prems by (intro Cons.IH gameOk_update)
  finally show ?case by (simp add: frames_def)
qed

subsection \<open>Spawn positions\<close>

lemma grid_index:
  fixes r :: real
  assumes "0 \<le> r" "r < 1" "0 < n"
  shows "0 \<le> \<lfloor>r * real_of_int n\<rfloor> \<and> \<lfloor>r * real_of_int n\<rfloor> < n"
proof
  show "0 \<le> \<lfloor>r * real_of_int n\<rfloor>" using assms by simp
  have "r * real_of_int n < real_of_int n" using assms by simp
  then show "\<lfloor>r * real_of_int n\<rfloor> < n" by (simp add: floor_less_iff)
qed

lemma spawnCrop_position:
  "x (spawnCrop rnd i) = of_int \<lfloor>rnd i * 28\<rfloor> * TILE + TILE \<and>
   y (spawnCrop rnd i) = of_int \<lfloor>rnd (i + 1) * 16\<rfloor> * TILE + TILE"
  by (simp add: spawnCrop_def Let_def Crop_new_def WIDTH_def HEIGHT_def TILE_def)

lemma spawnPowerUp_position:
  "x (spawnPowerUp rnd i) = of_int \<lfloor>rnd i * 28\<rfloor> * TILE + TILE \<and>
   y (spawnPowerUp rnd i) = of_int \<lfloor>rnd (i + 1) * 16\<rfloor> * TILE + TILE"
  by (simp add: spawnPowerUp_def Let_def PowerUp_new_def WIDTH_def HEIGHT_def TILE_def)

lemma onGridI:
  fixes e :: "'a Entity_scheme"
  assumes "x e = of_int m * TILE + TILE" "y e = of_int n * TILE + TILE"
    "0 \<le> m" "m < 28" "0 \<le> n" "n < 16"
  shows "onGrid e"
proof -
  have "real_of_int m \<le> 27" "real_of_int n \<le> 15" "0 \<le> real_of_int m" "0 \<le> real_of_int n"
    using assms by simp_all
  then have "TILE \<le> x e \<and> x e < WIDTH - TILE \<and> TILE \<le> y e \<and> y e < HEIGHT - TILE"
    using assms(1,2) by (simp add: TILE_def WIDTH_def HEIGHT_def)
  with assms(1,2) show ?thesis unfolding onGrid_def by blast
qed

subsection \<open>Movement\<close>

lemma aabb_fields:
  "x a = x a' \<Longrightarrow> y a = y a' \<Longrightarrow> w a = w a' \<Longrightarrow> h a = h a' \<Longrightarrow> aabb a b = aabb a' b"
  by (simp add: aabb_def)

lemma overlapsAny_fields:
  "x a = x a' \<Longrightarrow> y a = y a' \<Longrightarrow> w a = w a' \<Longrightarrow> h a = h a' \<Longrightarrow>
   overlapsAny a obs = overlapsAny a' obs"
  unfolding overlapsAny_def by (simp add: list_ex_iff aabb_def)

lemma Farmer_update_blocked:
  "list_ex (\<lambda>ob. aabb
      ((updatePowerUps dt f)\<lparr>x := clamp (x f + vx f * dt) 0 (WIDTH - w f),
                             y := clamp (y f + vy f * dt) 0 (HEIGHT - h f)\<rparr>) ob) obs
   = overlapsAny (proposedMove dt f) obs"
  unfolding overlapsAny_def proposedMove_def
  by (simp add: list_ex_iff aabb_def updatePowerUps_fields)

lemma Farmer_update_position:
  "x (Farmer_update dt obs f) =
     (if overlapsAny (proposedMove dt f) obs then x f else x (proposedMove dt f)) \<and>
   y (Farmer_update dt obs f) =
     (if overlapsAny (proposedMove dt f) obs then y f else y (proposedMove dt f)) \<and>
   w (Farmer_update dt obs f) = w f \<and> h (Farmer_update dt obs f) = h f \<and>
   vx (Farmer_update dt obs f) = vx f \<and> vy (Farmer_update dt obs f) = vy f \<and>
   speed (Farmer_update dt obs f) = speed (updatePowerUps dt f) \<and>
   hasScythe (Farmer_update dt obs f) = hasScythe (updatePowerUps dt f) \<and>
   activePowerUps (Farmer_update dt obs f) = activePowerUps (updatePowerUps dt f) \<and>
   baseSpeed (Farmer_update dt obs f) = baseSpeed f"
  by (simp add: Farmer_update_def Let_def updatePowerUps_fields Farmer_update_blocked)
     (simp add: proposedMove_def)

lemma Farmer_update_clear:
  assumes "\<not> overlapsAny f obs"
  shows "\<not> overlapsAny (Farmer_update dt obs f) obs"
proof (cases "overlapsAny (proposedMove dt f) obs")
  case True
  then have "overlapsAny (Farmer_update dt obs f) obs = overlapsAny f obs"
    by (intro overlapsAny_fields) (simp_all add: Farmer_update_position)
  with assms show ?thesis by simp
next
  case False
  then have "overlapsAny (Farmer_update dt obs f) obs = overlapsAny (proposedMove dt f) obs"
    by (intro overlapsAny_fields) (simp_all add: Farmer_update_position, simp_all add: proposedMove_def)
  with False show ?thesis by simp
qed

lemma handleInput_fields:
  "x (handleInput inp f) = x f \<and> y (handleInput inp f) = y f \<and>
   w (handleInput inp f) = w f \<and> h (handleInput inp f) = h f \<and>
   speed (handleInput inp f) = speed f \<and> baseSpeed (handleInput inp f) = baseSpeed f \<and>
   hasScythe (handleInput inp f) = hasScythe f \<and>
   activePowerUps (handleInput inp f) = activePowerUps f \<and>
   vx (handleInput inp f) =
     (of_bool (''ArrowRight'' \<in> keys inp) - of_bool (''ArrowLeft'' \<in> keys inp)) * speed f \<and>
   vy (handleInput inp f) =
     (of_bool (''ArrowDown'' \<in> keys inp) - of_bool (''ArrowUp'' \<in> keys inp)) * speed f"
  by (simp add: handleInput_def Let_def)

lemma addPowerUps_fields:
  "x (foldl (\<lambda>f p. addPowerUp p f) f ps) = x f \<and> y (foldl (\<lambda>f p. addPowerUp p f) f ps) = y f \<and>
   w (foldl (\<lambda>f p. addPowerUp p f) f ps) = w f \<and> h (foldl (\<lambda>f p. addPowerUp p f) f ps) = h f \<and>
   vx (foldl (\<lambda>f p. addPowerUp p f) f ps) = vx f \<and> vy (foldl (\<lambda>f p. addPowerUp p f) f ps) = vy f \<and>
   speed (foldl (\<lambda>f p. addPowerUp p f) f ps) = speed f \<and>
   baseSpeed (foldl (\<lambda>f p. addPowerUp p f) f ps) = baseSpeed f \<and>
   hasScythe (foldl (\<lambda>f p. addPowerUp p f) f ps) = hasScythe f"
  by (induction ps arbitrary: f) (simp_all add: addPowerUp_def)

lemma powerUpStep_velocity:
  "powerUpStep dt (f\<lparr>vx := a, vy := b\<rparr>) e = (powerUpStep dt f e)\<lparr>vx := a, vy := b\<rparr>"
  by (simp add: powerUpStep_def Let_def)

lemma foldl_powerUpStep_velocity:
  "foldl (powerUpStep dt) (f\<lparr>vx := a, vy := b\<rparr>) m = (foldl (powerUpStep dt) f m)\<lparr>vx := a, vy := b\<rparr>"
  by (induction m arbitrary: f) (simp_all add: powerUpStep_velocity)

lemma updatePowerUps_handleInput:
  "updatePowerUps dt (handleInput inp f) =
     (updatePowerUps dt f)\<lparr>vx := vx (handleInput inp f), vy := vy (handleInput inp f)\<rparr>"
proof -
  have "handleInput inp f = f\<lparr>vx := vx (handleInput inp f), vy := vy (handleInput inp f)\<rparr>"
    by (simp add: handleInput_def Let_def)
  then have "updatePowerUps dt (handleInput inp f) =
      updatePowerUps dt (f\<lparr>vx := vx (handleInput inp f), vy := vy (handleInput inp f)\<rparr>)"
    by simp
  also have "\<dots> = (updatePowerUps dt f)\<lparr>vx := vx (handleInput inp f), vy := vy (handleInput inp f)\<rparr>"
  proof -
    have "f\<lparr>vx := a, vy := b, speed := baseSpeed f, hasScythe := False\<rparr>
            = (f\<lparr>speed := baseSpeed f, hasScythe := False\<rparr>)\<lparr>vx := a, vy := b\<rparr>" for a b
      by (cases f) simp
    note e = this
    show ?thesis
      unfolding updatePowerUps_def
      by simp (subst e, simp add: foldl_powerUpStep_velocity)
  qed
  finally show ?thesis .
qed

text \<open>The player after a playing frame that the countdown does not end.\<close>

lemma update_play_player:
  assumes "state g = PLAYING" "0 < clamp (timeLeft g - dt) 0 GAME_LEN"
  shows "x (player (update rnd dt g)) = x (Farmer_update dt (obstacles g) (handleInput (input g) (player g))) \<and>
         y (player (update rnd dt g)) = y (Farmer_update dt (obstacles g) (handleInput (input g) (player g))) \<and>
         w (player (update rnd dt g)) = w (player g) \<and>
         h (player (update rnd dt g)) = h (player g) \<and>
         vx (player (update rnd dt g)) = vx (handleInput (input g) (player g)) \<and>
         vy (player (update rnd dt g)) = vy (handleInput (input g) (player g)) \<and>
         speed (player (update rnd dt g)) = speed (updatePowerUps dt (player g)) \<and>
         hasScythe (player (update rnd dt g)) = hasScythe (updatePowerUps dt (player g))"
  by (simp add: update_play_fields(1) [OF assms] addPowerUps_fields beforeCollection_fields
      Farmer_update_position updatePowerUps_handleInput)
     (simp add: handleInput_fields)

lemma update_clear:
  assumes "\<not> overlapsAny (player g) (obstacles g)"
  shows "\<not> overlapsAny (player (update rnd dt g)) (obstacles (update rnd dt g))"
proof (cases "state g = PLAYING")
  case False
  with assms show ?thesis by (simp add: update_idle)
next
  case True
  show ?thesis
  proof (cases "0 < clamp (timeLeft g - dt) 0 GAME_LEN")
    case False
    then have "clamp (timeLeft g - dt) 0 GAME_LEN \<le> 0" by simp
    from update_timeUp [OF True this, of rnd] assms show ?thesis by simp
  next
    case pos: True
    let ?f = "handleInput (input g) (player g)"
    have "overlapsAny ?f (obstacles g) = overlapsAny (player g) (obstacles g)"
      by (intro overlapsAny_fields) (simp_all add: handleInput_fields)
    with assms have "\<not> overlapsAny (Farmer_update dt (obstacles g) ?f) (obstacles g)"
      by (intro Farmer_update_clear) simp
    moreover have "overlapsAny (player (update rnd dt g)) (obstacles g)
        = overlapsAny (Farmer_update dt (obstacles g) ?f) (obstacles g)"
      by (intro overlapsAny_fields)
         (simp_all add: update_play_player [OF True pos] Farmer_update_position handleInput_fields)
    ultimately show ?thesis by (simp add: update_play_fields(6) [OF True pos])
  qed
qed

subsection \<open>Matching crops\<close>

lemma scytheHit_iff: "scytheHit p c \<longleftrightarrow> centreWithin 80 p c"
proof -
  have "sqrt a \<le> 80 \<longleftrightarrow> a \<le> 80\<^sup>2" for a :: real
    using real_sqrt_le_iff [of a "80\<^sup>2"] by simp
  then show ?thesis
    by (simp add: scytheHit_def centreWithin_def centre_def Let_def power2_eq_square)
qed

lemma aabb_iff:
  fixes a :: "'a Entity_scheme" and b :: "'b Entity_scheme"
  assumes "0 < w a" "0 < h a" "0 < w b" "0 < h b"
  shows "aabb a b \<longleftrightarrow> boxesOverlap a b"
proof
  assume o: "aabb a b"
  let ?px = "(max (x a) (x b) + min (x a + w a) (x b + w b)) / 2"
  let ?py = "(max (y a) (y b) + min (y a + h a) (y b + h b)) / 2"
  have "max (x a) (x b) < min (x a + w a) (x b + w b)"
       "max (y a) (y b) < min (y a + h a) (y b + h b)"
    using o assms by (simp_all add: aabb_def)
  then have "x a < ?px \<and> ?px < x a + w a \<and> y a < ?py \<and> ?py < y a + h a \<and>
             x b < ?px \<and> ?px < x b + w b \<and> y b < ?py \<and> ?py < y b + h b"
    by (auto simp: max_def min_def split: if_splits)
  then show "boxesOverlap a b" unfolding boxesOverlap_def by blast
next
  assume "boxesOverlap a b"
  then show "aabb a b" by (auto simp: boxesOverlap_def aabb_def)
qed

lemma collectedCrops_spec:
  assumes "farmerOk (player g)" "list_all cropOk (crops g)"
  shows "collectedCrops g =
     filter (\<lambda>c. if hasScythe (player g) then centreWithin 80 (player g) c
                 else boxesOverlap (player g) c) (crops g)"
proof -
  have "aabb (player g) c = boxesOverlap (player g) c" if "c \<in> set (crops g)" for c
    using that assms by (intro aabb_iff) (simp_all add: farmerOk_def cropOk_def list_all_iff)
  then show ?thesis
    by (auto simp: collectedCrops_filter scytheHit_iff intro!: filter_cong)
qed

lemma map_has_aged:
  "map_has k (agedEntries dt m) \<longleftrightarrow> (\<exists>a. (k, a) \<in> set m \<and> 0 < ptimeLeft a - dt)"
  by (force simp: map_has_iff agedEntries_def)

subsection \<open>Spawned objects stay on the grid\<close>

lemma onGrid_fields:
  "x a = x b \<Longrightarrow> y a = y b \<Longrightarrow> onGrid a = onGrid b"
  by (simp add: onGrid_def)

lemma onGrid_spawnCrop: "randomSource rnd \<Longrightarrow> onGrid (spawnCrop rnd i)"
proof -
  assume "randomSource rnd"
  then have r: "0 \<le> rnd i" "rnd i < 1" "0 \<le> rnd (i + 1)" "rnd (i + 1) < 1"
    by (simp_all add: randomSource_def)
  have a: "0 \<le> \<lfloor>rnd i * 28\<rfloor> \<and> \<lfloor>rnd i * 28\<rfloor> < 28"
    using grid_index [OF r(1,2), of 28] by simp
  have b: "0 \<le> \<lfloor>rnd (i + 1) * 16\<rfloor> \<and> \<lfloor>rnd (i + 1) * 16\<rfloor> < 16"
    using grid_index [OF r(3,4), of 16] by simp
  show ?thesis
    using a b spawnCrop_position [of rnd i]
    by (intro onGridI [where m = "\<lfloor>rnd i * 28\<rfloor>" and n = "\<lfloor>rnd (i + 1) * 16\<rfloor>"]) simp_all
qed

lemma onGrid_spawnPowerUp: "randomSource rnd \<Longrightarrow> onGrid (spawnPowerUp rnd i)"
proof -
  assume "randomSource rnd"
  then have r: "0 \<le> rnd i" "rnd i < 1" "0 \<le> rnd (i + 1)" "rnd (i + 1) < 1"
    by (simp_all add: randomSource_def)
  have a: "0 \<le> \<lfloor>rnd i * 28\<rfloor> \<and> \<lfloor>rnd i * 28\<rfloor> < 28"
    using grid_index [OF r(1,2), of 28] by simp
  have b: "0 \<le> \<lfloor>rnd (i + 1) * 16\<rfloor> \<and> \<lfloor>rnd (i + 1) * 16\<rfloor> < 16"
    using grid_index [OF r(3,4), of 16] by simp
  show ?thesis
    using a b spawnPowerUp_position [of rnd i]
    by (intro onGridI [where m = "\<lfloor>rnd i * 28\<rfloor>" and n = "\<lfloor>rnd (i + 1) * 16\<rfloor>"]) simp_all
qed

lemma spawnCrops_grid:
  "randomSource rnd \<Longrightarrow> list_all onGrid (crops g) \<Longrightarrow>
   list_all onGrid (crops (snd (spawnCrops rnd i g)))"
proof (induction rnd i g rule: spawnCrops.induct)
  case (1 rnd i g)
  show ?case
  proof (cases "spawnEvery \<le> accumSpawn g")
    case True
    with 1 show ?thesis by (subst spawnCrops.simps) (simp add: onGrid_spawnCrop)
  next
    case False
    with 1 show ?thesis by (simp add: spawnCrops.simps)
  qed
qed

lemma spawnPowerUps_grid:
  "randomSource rnd \<Longrightarrow> list_all onGrid (powerUps g) \<Longrightarrow>
   list_all onGrid (powerUps (snd (spawnPowerUps rnd i g)))"
proof (induction rnd i g rule: spawnPowerUps.induct)
  case (1 rnd i g)
  show ?case
  proof (cases "powerUpSpawnEvery \<le> accumPowerUpSpawn g")
    case True
    with 1 show ?thesis by (subst spawnPowerUps.simps) (simp add: onGrid_spawnPowerUp)
  next
    case False
    with 1 show ?thesis by (simp add: spawnPowerUps.simps)
  qed
qed

lemma beforeCollection_grid:
  assumes "randomSource rnd" "gridOk g"
  shows "gridOk (beforeCollection rnd dt g)"
proof -
  let ?g0 = "movePlayer dt (g\<lparr>timeLeft := clamp (timeLeft g - dt) 0 GAME_LEN\<rparr>)"
  let ?g1 = "?g0\<lparr>accumSpawn := accumSpawn ?g0 + dt\<rparr>"
  let ?s1 = "spawnCrops rnd 0 ?g1"
  let ?g2 = "(snd ?s1)\<lparr>accumPowerUpSpawn := accumPowerUpSpawn (snd ?s1) + dt\<rparr>"
  let ?s2 = "spawnPowerUps rnd (fst ?s1) ?g2"
  have b: "beforeCollection rnd dt g = snd ?s2"
    by (simp add: beforeCollection_def spawning_def split_beta Let_def)
  from assms(2) have c0: "list_all onGrid (crops ?g1)" and p0: "list_all onGrid (powerUps ?g1)"
    by (simp_all add: gridOk_def movePlayer_fields)
  have c1: "list_all onGrid (crops (snd ?s1))" using assms(1) c0 by (rule spawnCrops_grid)
  have p1: "list_all onGrid (powerUps ?g2)" using p0 by (simp add: spawnCrops_fields)
  have "list_all onGrid (powerUps (snd ?s2))" using assms(1) p1 by (rule spawnPowerUps_grid)
  moreover have "list_all onGrid (crops (snd ?s2))" using c1 by (simp add: spawnPowerUps_fields)
  ultimately show ?thesis by (simp add: b gridOk_def)
qed

lemma marked_grid:
  fixes cs :: "Crop list"
  shows "list_all onGrid cs \<Longrightarrow>
   list_all onGrid (map (Crop_update dt)
     (filter (\<lambda>c. \<not> dead c) (map (\<lambda>c. if P c then c\<lparr>dead := True\<rparr> else c) cs)))"
  by (induction cs) (auto simp: onGrid_def Crop_update_def)

lemma marked_grid_powerUps:
  fixes ps :: "PowerUp list"
  shows "list_all onGrid ps \<Longrightarrow>
   list_all onGrid (map (PowerUp_update dt)
     (filter (\<lambda>p. \<not> dead p) (map (\<lambda>p. if P p then p\<lparr>dead := True\<rparr> else p) ps)))"
  by (induction ps) (auto simp: onGrid_def PowerUp_update_def)

lemma gridOk_update:
  assumes "randomSource rnd" "gridOk g"
  shows "gridOk (update rnd dt g)"
proof (cases "state g = PLAYING")
  case False
  with assms(2) show ?thesis by (simp add: update_idle)
next
  case True
  show ?thesis
  proof (cases "0 < clamp (timeLeft g - dt) 0 GAME_LEN")
    case False
    then have "clamp (timeLeft g - dt) 0 GAME_LEN \<le> 0" by simp
    from update_timeUp [OF True this, of rnd] assms(2) show ?thesis by (simp add: gridOk_def)
  next
    case pos: True
    note f = update_play_fields [OF True pos, of rnd]
    from beforeCollection_grid [OF assms, of dt]
    have c: "list_all onGrid (crops (beforeCollection rnd dt g))"
      and p: "list_all onGrid (powerUps (beforeCollection rnd dt g))"
      by (simp_all add: gridOk_def)
    have "list_all onGrid (crops (update rnd dt g))" unfolding f(2) using c by (rule marked_grid)
    moreover have "list_all onGrid (powerUps (update rnd dt g))"
      unfolding f(3) using p by (rule marked_grid_powerUps)
    ultimately show ?thesis by (simp add: gridOk_def)
  qed
qed

lemma reachable_gridOk: "reachable g \<Longrightarrow> gridOk g"
proof (induction rule: reachable.induct)
  case r_new
  show ?case by (simp add: gridOk_def Game_new_def)
next
  case (r_start g now)
  then show ?case by (simp add: gridOk_def start_def reset_def Let_def)
next
  case (r_reset g now)
  then show ?case by (simp add: gridOk_def reset_def Let_def)
next
  case (r_togglePause g)
  then show ?case by (simp add: gridOk_def togglePause_def)
next
  case (r_keyDown g k)
  then show ?case by (simp add: gridOk_def onKeyDown_def togglePause_def Let_def)
next
  case (r_keyUp g k)
  then show ?case by (simp add: gridOk_def onKeyUp_def)
next
  case (r_update g rnd dt)
  then show ?case by (simp add: gridOk_update)
next
  case (r_tick g rnd ts)
  then have "gridOk (g\<lparr>lastTime := ts\<rparr>)" by (simp add: gridOk_def)
  with r_tick show ?case by (simp add: tick_def Let_def gridOk_update)
qed

section \<open>Concrete states\<close>

text \<open>The concrete inputs, and frames on them, evaluated.\<close>

lemma playing0_eq:
  "playing0 =
     \<lparr>state = PLAYING, player = Farmer_new 433 460,
      crops = [], powerUps = [], obstacles = [Scarecrow_new 200 220, Scarecrow_new 650 160],
      pointTexts = [], lastTime = 0, timeLeft = 60, accumSpawn = 0, accumPowerUpSpawn = 0,
      score = 0, goal = 15, input = \<lparr>keys = {}\<rparr>\<rparr>"
  by (simp add: playing0_def start_def reset_def Let_def Game_new_def WIDTH_def HEIGHT_def GAME_LEN_def GOAL_def)

lemma reachable_playing0: "reachable playing0"
  unfolding playing0_def by (intro reachable.intros)

lemma timeUp0: "update rndZero 60 playing0 = playing0\<lparr>timeLeft := 0, state := GAME_OVER\<rparr>"
  using update_timeUp [of playing0 60 rndZero]
  by (simp add: playing0_eq GAME_LEN_def clamp_def)

lemmas frame_defs =
  update_def movePlayer_def handleInput_def Farmer_update_def updatePowerUps_def
  spawning_def spawnCrops.simps spawnPowerUps.simps collectCrops_def collectedCrops_def
  collectPowerUps_def cleanUp_def ageTexts_def aabb_def clamp_def Let_def
  Farmer_new_def Scarecrow_new_def Crop_new_def pointText_def cropData_def
  spawnEvery_def powerUpSpawnEvery_def GAME_LEN_def WIDTH_def HEIGHT_def

lemma played0:
  "update rndZero (1 / 100) playing0 =
     playing0\<lparr>timeLeft := 5999 / 100, accumSpawn := 1 / 100, accumPowerUpSpawn := 1 / 100\<rparr>"
  by (simp add: playing0_eq frame_defs)

lemma oneApple_frame:
  "update rndZero (1 / 100) oneApple =
     playing0\<lparr>state := WIN, score := 15, timeLeft := 5999 / 100,
       accumSpawn := 1 / 100, accumPowerUpSpawn := 1 / 100,
       pointTexts := [\<lparr>tx = 430, ty = 4497 / 10, points = 5, life = 98 / 100, tcolor = ''#ffd700''\<rparr>]\<rparr>"
  by (simp add: oneApple_def playing0_eq frame_defs)

lemma gameOk_oneApple: "gameOk oneApple"
  by (simp add: oneApple_def playing0_eq gameOk_def farmerOk_new cropOk_Crop_new GAME_LEN_def GOAL_def)

lemma gameOk_paused0: "gameOk paused0"
  unfolding paused0_def by (intro gameOk_togglePause reachable_gameOk reachable_playing0)

lemma paused0_state: "state paused0 = PAUSED"
  by (simp add: paused0_def togglePause_def playing0_eq)

lemma randomSource_rndHalf: "randomSource rndHalf"
  by (simp add: randomSource_def rndHalf_def)

lemma besideScarecrow_frame:
  "update rndZero (33 / 1000) besideScarecrow =
     besideScarecrow\<lparr>player := (Farmer_new 160 230)\<lparr>vx := 260\<rparr>,
       timeLeft := 59967 / 1000, accumSpawn := 33 / 1000, accumPowerUpSpawn := 33 / 1000\<rparr>"
  by (simp add: besideScarecrow_def playing0_eq frame_defs)

lemma fiveApples_frame:
  "update rndZero (1 / 100) fiveApples =
     playing0\<lparr>state := WIN, score := 25, timeLeft := 5999 / 100,
       accumSpawn := 1 / 100, accumPowerUpSpawn := 1 / 100,
       pointTexts :=
         [\<lparr>tx = 430, ty = 4497 / 10, points = 5, life = 98 / 100, tcolor = ''#ffd700''\<rparr>,
          \<lparr>tx = 460, ty = 4497 / 10, points = 5, life = 98 / 100, tcolor = ''#ffd700''\<rparr>,
          \<lparr>tx = 430, ty = 4797 / 10, points = 5, life = 98 / 100, tcolor = ''#ffd700''\<rparr>,
          \<lparr>tx = 460, ty = 4797 / 10, points = 5, life = 98 / 100, tcolor = ''#ffd700''\<rparr>,
          \<lparr>tx = 460, ty = 4797 / 10, points = 5, life = 98 / 100, tcolor = ''#ffd700''\<rparr>]\<rparr>"
  by (simp add: fiveApples_def playing0_eq frame_defs)

lemma fiveApples_collected:
  "collectedCrops (beforeCollection rndZero (1 / 100) fiveApples) = crops fiveApples"
  by (simp add: fiveApples_def playing0_eq beforeCollection_def frame_defs)

lemma boostEnding_frame:
  "update rndZero (1 / 50) boostEnding =
     boostEnding\<lparr>player := (Farmer_new (44236 / 100) 460)\<lparr>vx := 468\<rparr>,
       timeLeft := 5998 / 100, accumSpawn := 1 / 50, accumPowerUpSpawn := 1 / 50\<rparr>"
  by (simp add: boostEnding_def playing0_eq frame_defs powerUpStep_def map_delete_def powerData_def)

lemma boostEnding_frames:
  "frames [(rndZero, 1 / 50), (rndZero, 1 / 50)] boostEnding =
     boostEnding\<lparr>player := (Farmer_new (44756 / 100) 460)\<lparr>vx := 260\<rparr>,
       timeLeft := 5996 / 100, accumSpawn := 2 / 50, accumPowerUpSpawn := 2 / 50\<rparr>"
  by (simp add: frames_def boostEnding_frame) (simp add: boostEnding_def playing0_eq frame_defs)

lemma boostEnding_recomputed: "speed (updatePowerUps (1 / 50) (player boostEnding)) = 260"
  by (simp add: boostEnding_def playing0_eq Farmer_new_def updatePowerUps_def powerUpStep_def
      map_delete_def Let_def)

lemmas power_defs = powerUpStep_def map_delete_def powerData_def scytheHit_iff centreWithin_def
  centre_def addPowerUp_def

lemma gameOk_scytheActive: "gameOk scytheActive"
  by (simp add: scytheActive_def playing0_eq gameOk_def cropOk_Crop_new GAME_LEN_def GOAL_def)
     (simp add: farmerOk_def powerUpsConsistent_def Farmer_new_def entryOk_def map_has_def)

lemma gameOk_scytheEnding: "gameOk scytheEnding"
  by (simp add: scytheEnding_def playing0_eq gameOk_def cropOk_Crop_new GAME_LEN_def GOAL_def)
     (simp add: farmerOk_def powerUpsConsistent_def Farmer_new_def entryOk_def map_has_def)

lemma scytheActive_frame:
  "update rndZero (1 / 100) scytheActive =
     scytheActive\<lparr>player := (Farmer_new 433 460)
                  \<lparr>activePowerUps := [(Scythe, \<lparr>ptimeLeft = 799 / 100, adata = powerData Scythe\<rparr>)],
                    hasScythe := True\<rparr>,
       crops := [Crop_update (1 / 100) (Crop_new 30 30 wheat 0)],
       pointTexts := [\<lparr>tx = 400, ty = 4197 / 10, points = 1, life = 98 / 100, tcolor = ''#d9a441''\<rparr>],
       score := 1,
       timeLeft := 5999 / 100, accumSpawn := 1 / 100, accumPowerUpSpawn := 1 / 100\<rparr>"
  by (simp add: scytheActive_def playing0_eq frame_defs power_defs Crop_update_def)

lemma scytheEnding_frame:
  "update rndZero (1 / 50) scytheEnding =
     scytheEnding\<lparr>player := Farmer_new 433 460,
       crops := map (Crop_update (1 / 50)) (crops scytheEnding),
       timeLeft := 5998 / 100, accumSpawn := 1 / 50, accumPowerUpSpawn := 1 / 50\<rparr>"
  by (simp add: scytheEnding_def playing0_eq frame_defs power_defs Crop_update_def)

lemma scytheActive_before:
  "hasScythe (player (beforeCollection rndZero (1 / 100) scytheActive))"
  by (simp add: beforeCollection_fields)
     (simp add: scytheActive_def playing0_eq frame_defs power_defs)

lemma scytheEnding_before:
  "\<not> hasScythe (player (beforeCollection rndZero (1 / 50) scytheEnding))"
  by (simp add: beforeCollection_fields)
     (simp add: scytheEnding_def playing0_eq frame_defs power_defs)

lemma randomSource_rndZero: "randomSource rndZero"
  by (simp add: randomSource_def rndZero_def)

lemma randomSource_rndPower: "randomSource rndPower"
  by (simp add: randomSource_def rndPower_def)

lemma reachable_pickedUp: "reachable pickedUp"
  unfolding pickedUp_def arrived_def spawned12_def
  by (intro reachable.intros reachable_playing0 randomSource_rndZero randomSource_rndPower)

lemma spawned12_eq:
  "spawned12 =
     playing0\<lparr>crops := replicate 15 (Crop_update 12 (Crop_new 30 30 wheat 0)),
       powerUps := [PowerUp_update 12 (PowerUp_new 450 270 Scythe)],
       timeLeft := 48, accumSpawn := 0, accumPowerUpSpawn := 0\<rparr>"
  by (simp add: spawned12_def playing0_eq frame_defs power_defs Crop_update_def PowerUp_update_def
      spawnCrop_def spawnPowerUp_def PowerUp_new_def rndPower_def TILE_def eval_nat_numeral)

lemma arrived_eq:
  "arrived =
     spawned12\<lparr>player := (Farmer_new 433 278)
                  \<lparr>vy := - 260,
                    activePowerUps := [(Scythe, \<lparr>ptimeLeft = 8, adata = powerData Scythe\<rparr>)]\<rparr>,
       crops := replicate 15 (Crop_update (127 / 10) (Crop_new 30 30 wheat 0)),
       powerUps := [],
       timeLeft := 473 / 10, accumSpawn := 7 / 10, accumPowerUpSpawn := 7 / 10,
       input := \<lparr>keys = {''ArrowUp''}\<rparr>\<rparr>"
  by (simp add: arrived_def spawned12_eq)
     (simp add: playing0_eq onKeyDown_def frame_defs power_defs Crop_update_def PowerUp_update_def
        PowerUp_new_def eval_nat_numeral)

lemma pickedUp_eq:
  "pickedUp =
     arrived\<lparr>player := (Farmer_new 433 (2754 / 10))
                  \<lparr>vy := - 260,
                    activePowerUps := [(Scythe, \<lparr>ptimeLeft = 799 / 100, adata = powerData Scythe\<rparr>)],
                    hasScythe := True\<rparr>,
       crops := replicate 15 (Crop_update (1271 / 100) (Crop_new 30 30 wheat 0)),
       timeLeft := 4729 / 100, accumSpawn := 71 / 100, accumPowerUpSpawn := 71 / 100\<rparr>"
  by (simp add: pickedUp_def arrived_eq)
     (simp add: spawned12_eq playing0_eq frame_defs power_defs Crop_update_def eval_nat_numeral)

lemma reachable_spawned12: "reachable spawned12"
  unfolding spawned12_def
  by (intro reachable.intros reachable_playing0 randomSource_rndPower)

section \<open>The claims\<close>

text \<open>
  C1, as stated, fails: \<^verbatim>\<open>reset\<close> has no guard and \<^verbatim>\<open>start\<close> also accepts
  GAME_OVER and WIN. In state PLAYING a reset goes to MENU and puts the timer back, in
  GAME_OVER a start goes to PLAYING, and in MENU a reset of the constructed game places
  the obstacles: three commands in states for which the transition table lists nothing.
\<close>

theorem commands_counterexample:
  "state (update rndZero (1 / 100) playing0) = PLAYING \<and>
   state (reset 1 (update rndZero (1 / 100) playing0)) = MENU \<and>
   timeLeft (reset 1 (update rndZero (1 / 100) playing0)) \<noteq> timeLeft (update rndZero (1 / 100) playing0) \<and>
   state (update rndZero 60 playing0) = GAME_OVER \<and>
   state (start 1 (update rndZero 60 playing0)) = PLAYING \<and>
   state Game_new = MENU \<and> obstacles (reset 1 Game_new) \<noteq> obstacles Game_new"
  by (simp add: timeUp0 played0) (simp add: playing0_eq reset_def Let_def start_def Game_new_def GAME_LEN_def)

text \<open>
  C1, amended. \<^verbatim>\<open>start\<close> does nothing in PLAYING only: in PAUSED it resumes and
  leaves all data as they are, in MENU, GAME_OVER and WIN it resets entities, score and
  timer and enters PLAYING. \<^verbatim>\<open>togglePause\<close> switches between PLAYING and PAUSED and
  does nothing in MENU, GAME_OVER and WIN. \<^verbatim>\<open>reset\<close> has no inapplicable state: from
  every state it goes to MENU and resets entities, score and timer.
\<close>

theorem commands_effect:
  "(state g = PLAYING \<longrightarrow> start now g = g) \<and>
   (state g = PAUSED \<longrightarrow> start now g = g\<lparr>state := PLAYING\<rparr>) \<and>
   (state g = MENU \<or> state g = GAME_OVER \<or> state g = WIN \<longrightarrow>
      start now g = (reset now g)\<lparr>state := PLAYING\<rparr>) \<and>
   (state g = PLAYING \<longrightarrow> togglePause g = g\<lparr>state := PAUSED\<rparr>) \<and>
   (state g = PAUSED \<longrightarrow> togglePause g = g\<lparr>state := PLAYING\<rparr>) \<and>
   (state g = MENU \<or> state g = GAME_OVER \<or> state g = WIN \<longrightarrow> togglePause g = g) \<and>
   reset now g =
     g\<lparr>state := MENU,
       player := Farmer_new (WIDTH / 2 - 17) (HEIGHT - 80),
       crops := [], powerUps := [], pointTexts := [],
       obstacles := [Scarecrow_new 200 220, Scarecrow_new 650 160],
       score := 0, timeLeft := GAME_LEN,
       accumSpawn := 0, accumPowerUpSpawn := 0, lastTime := now\<rparr>"
  by (auto simp: start_def togglePause_def reset_def Let_def)

theorem commands_effect_witness:
  "state playing0 = PLAYING \<and> start 1 playing0 = playing0 \<and>
   togglePause playing0 = playing0\<lparr>state := PAUSED\<rparr> \<and>
   state paused0 = PAUSED \<and> start 1 paused0 = playing0 \<and> togglePause paused0 = playing0 \<and>
   state Game_new = MENU \<and> start 0 Game_new = playing0 \<and> togglePause Game_new = Game_new \<and>
   state (reset 1 playing0) = MENU"
  using commands_effect [of playing0 1] commands_effect [of paused0 1] commands_effect [of Game_new 0]
  by (simp add: paused0_def) (simp add: playing0_def start_def Game_new_def reset_def Let_def)

text \<open>
  C2. In every reachable state the active power-up mapping has one entry per kind at
  most and every entry has time left; the area-collect flag is set only while the
  mapping holds a scythe entry, and the speed differs from the base speed only while it
  holds a speed entry. One pass of \<^verbatim>\<open>updatePowerUps\<close> recomputes all three from the
  mapping: the entries that still have time left after \<open>dt\<close> are kept, the flag is set
  iff a scythe entry is kept, the speed is boosted iff a speed entry is kept. Picking a
  power-up up replaces the entry of its kind by one with the full duration, or adds the
  entry when there is none.
\<close>

theorem power_ups_consistent:
  assumes "reachable g"
  shows
    "(let f = player g; m = activePowerUps f
      in distinct (map fst m) \<and>
         list_all (\<lambda>e. 0 < ptimeLeft (snd e)) m \<and>
         (hasScythe f \<longrightarrow> map_has Scythe m) \<and>
         (speed f \<noteq> baseSpeed f \<longrightarrow> map_has Speed m) \<and>
         activePowerUps (updatePowerUps dt f) = agedEntries dt m \<and>
         hasScythe (updatePowerUps dt f) = map_has Scythe (agedEntries dt m) \<and>
         speed (updatePowerUps dt f) =
           (if map_has Speed (agedEntries dt m) then baseSpeed f * (18 / 10) else baseSpeed f) \<and>
         distinct (map fst (activePowerUps (addPowerUp p f))) \<and>
         map_of (activePowerUps (addPowerUp p f)) (ptype p)
           = Some \<lparr>ptimeLeft = duration p, adata = pdata p\<rparr> \<and>
         length (activePowerUps (addPowerUp p f))
           = (if map_has (ptype p) m then length m else length m + 1))"
proof -
  let ?f = "player g"
  let ?m = "activePowerUps ?f"
  from assms have "gameOk g" by (rule reachable_gameOk)
  then have c: "powerUpsConsistent ?f" by (simp add: gameOk_def farmerOk_def)
  then have d: "distinct (map fst ?m)" and e: "list_all entryOk ?m"
    by (simp_all add: powerUpsConsistent_def)
  have pos: "list_all (\<lambda>e. 0 < ptimeLeft (snd e)) ?m"
    using e by (simp add: list_all_iff entryOk_def)
  have eff: "(hasScythe ?f \<longrightarrow> map_has Scythe ?m) \<and> (speed ?f \<noteq> baseSpeed ?f \<longrightarrow> map_has Speed ?m)"
    using c by (auto simp: powerUpsConsistent_def)
  note r = updatePowerUps_result [OF d, of dt]
  have c': "powerUpsConsistent (updatePowerUps dt ?f)"
    using d e by (rule consistent_updatePowerUps)
  have sp: "speed (updatePowerUps dt ?f) =
      (if map_has Speed (agedEntries dt ?m) then baseSpeed ?f * (18 / 10) else baseSpeed ?f)"
  proof (cases "map_of (agedEntries dt ?m) Speed")
    case None
    then have "\<not> map_has Speed (agedEntries dt ?m)"
      by (simp add: map_has_iff map_of_eq_None_iff)
    with None show ?thesis by (simp add: r(2))
  next
    case (Some a)
    then have mem: "(Speed, a) \<in> set (agedEntries dt ?m)" by (rule map_of_SomeD)
    then have h: "map_has Speed (agedEntries dt ?m)" by (force simp: map_has_iff)
    from mem agedEntries_entryOk [OF e, of dt] have "adata a = powerData Speed"
      by (auto simp: list_all_iff entryOk_def)
    then have "the (multiplier (adata a)) = 18 / 10" by (simp add: powerData_def)
    with Some h show ?thesis by (simp add: r(2))
  qed
  have add: "distinct (map fst (activePowerUps (addPowerUp p ?f))) \<and>
      map_of (activePowerUps (addPowerUp p ?f)) (ptype p)
        = Some \<lparr>ptimeLeft = duration p, adata = pdata p\<rparr> \<and>
      length (activePowerUps (addPowerUp p ?f))
        = (if map_has (ptype p) ?m then length ?m else length ?m + 1)"
    using d by (simp add: addPowerUp_def map_set_distinct map_of_map_set map_set_length map_has_iff)
  show ?thesis
    unfolding Let_def using d pos eff r(1) r(3) sp add by simp
qed

theorem power_ups_consistent_witness:
  "reachable pickedUp \<and>
   activePowerUps (player pickedUp) = [(Scythe, \<lparr>ptimeLeft = 799 / 100, adata = powerData Scythe\<rparr>)] \<and>
   hasScythe (player pickedUp) \<and> map_has Scythe (activePowerUps (player pickedUp)) \<and>
   speed (player pickedUp) = baseSpeed (player pickedUp) \<and>
   \<not> hasScythe (updatePowerUps 8 (player pickedUp)) \<and>
   activePowerUps (updatePowerUps 8 (player pickedUp)) = [] \<and>
   activePowerUps (addPowerUp (PowerUp_new 450 270 Scythe) (player pickedUp))
     = [(Scythe, \<lparr>ptimeLeft = 8, adata = powerData Scythe\<rparr>)]"
  using power_ups_consistent [OF reachable_pickedUp, of 8 "PowerUp_new 450 270 Scythe"]
  by (simp add: reachable_pickedUp)
     (simp add: pickedUp_eq Farmer_new_def map_has_def agedEntries_def addPowerUp_def PowerUp_new_def
        Let_def)

text \<open>
  C3. A frame in state PLAYING after which the score is at least the goal ends in WIN
  with time left on the clock, when the score was below the goal before the frame; and
  whenever the frame collects a crop at all. For the scenario, see the concrete frames
  below: from score 0 and goal 15 a frame that collects five golden apples ends in WIN
  with score 25, and with two apples collected before (score 10), the third already wins.
\<close>

theorem goal_reached_wins:
  assumes "state g = PLAYING" "goal g \<le> score (update rnd dt g)"
  shows "(score g < goal g \<longrightarrow>
            state (update rnd dt g) = WIN \<and> 0 < timeLeft (update rnd dt g)) \<and>
         (0 < timeLeft (update rnd dt g) \<and> collectedCrops (beforeCollection rnd dt g) \<noteq> [] \<longrightarrow>
            state (update rnd dt g) = WIN)"
proof (cases "0 < clamp (timeLeft g - dt) 0 GAME_LEN")
  case False
  then have le: "clamp (timeLeft g - dt) 0 GAME_LEN \<le> 0" by simp
  have "score (update rnd dt g) = score g" "timeLeft (update rnd dt g) \<le> 0"
    using le by (simp_all add: update_timeUp [OF assms(1) le])
  with assms(2) show ?thesis by simp
next
  case True
  note f = update_play_fields [OF assms(1) True, of rnd]
  have t: "0 < timeLeft (update rnd dt g)"
    using True by (simp add: update_timeLeft [OF assms(1)])
  have "collectedCrops (beforeCollection rnd dt g) \<noteq> []" if "score g < goal g"
  proof
    assume "collectedCrops (beforeCollection rnd dt g) = []"
    then have "score (update rnd dt g) = score g" by (simp add: f(4))
    with that assms(2) show False by simp
  qed
  with assms(2) t show ?thesis by (simp add: f(5))
qed

theorem goal_reached_wins_witness:
  "state fiveApples = PLAYING \<and> score fiveApples = 0 \<and> goal fiveApples = 15 \<and>
   length (collectedCrops (beforeCollection rndZero (1 / 100) fiveApples)) = 5 \<and>
   score (update rndZero (1 / 100) fiveApples) = 25 \<and>
   state (update rndZero (1 / 100) fiveApples) = WIN \<and>
   timeLeft (update rndZero (1 / 100) fiveApples) = 5999 / 100 \<and>
   state oneApple = PLAYING \<and> score oneApple = 10 \<and> goal oneApple = 15 \<and>
   score (update rndZero (1 / 100) oneApple) = 15 \<and>
   state (update rndZero (1 / 100) oneApple) = WIN"
  using goal_reached_wins [of fiveApples rndZero "1 / 100"]
        goal_reached_wins [of oneApple rndZero "1 / 100"]
  by (simp add: fiveApples_frame fiveApples_collected oneApple_frame)
     (simp add: fiveApples_def oneApple_def playing0_eq)

text \<open>
  C4. In a frame in state PLAYING the countdown is the old value less the elapsed time,
  kept within zero and the round length; for a non-negative elapsed time and a timer
  within the round length that is the difference clamped below at zero. In the frame
  where it reaches zero the state becomes WIN if the score has reached the goal and
  GAME_OVER otherwise, and nothing else of the state changes: movement, spawning and
  collection are skipped.
\<close>

theorem countdown_timer:
  assumes "state g = PLAYING"
  shows "timeLeft (update rnd dt g) = clamp (timeLeft g - dt) 0 GAME_LEN \<and>
         (0 \<le> dt \<and> timeLeft g \<le> GAME_LEN \<longrightarrow>
            timeLeft (update rnd dt g) = max 0 (timeLeft g - dt)) \<and>
         (timeLeft (update rnd dt g) \<le> 0 \<longrightarrow>
            update rnd dt g =
              g\<lparr>timeLeft := 0, state := (if score g \<ge> goal g then WIN else GAME_OVER)\<rparr>)"
proof (intro conjI impI)
  show t: "timeLeft (update rnd dt g) = clamp (timeLeft g - dt) 0 GAME_LEN"
    using assms by (rule update_timeLeft)
  show "timeLeft (update rnd dt g) = max 0 (timeLeft g - dt)"
    if "0 \<le> dt \<and> timeLeft g \<le> GAME_LEN"
    using that t by (simp add: clamp_def GAME_LEN_def)
  show "update rnd dt g = g\<lparr>timeLeft := 0, state := (if score g \<ge> goal g then WIN else GAME_OVER)\<rparr>"
    if "timeLeft (update rnd dt g) \<le> 0"
  proof -
    have le: "clamp (timeLeft g - dt) 0 GAME_LEN \<le> 0" using that t by simp
    have "0 \<le> clamp (timeLeft g - dt) 0 GAME_LEN" by (simp add: clamp_def GAME_LEN_def)
    with le have "clamp (timeLeft g - dt) 0 GAME_LEN = 0" by simp
    with update_timeUp [OF assms le, of rnd] show ?thesis by simp
  qed
qed

theorem countdown_timer_witness:
  "state playing0 = PLAYING \<and> (0::real) \<le> 60 \<and> timeLeft playing0 \<le> GAME_LEN \<and>
   timeLeft (update rndZero 60 playing0) = 0 \<and>
   update rndZero 60 playing0 = playing0\<lparr>timeLeft := 0, state := GAME_OVER\<rparr>"
  using countdown_timer [of playing0 rndZero 60]
  by (simp add: playing0_eq GAME_LEN_def clamp_def)

text \<open>
  C5. When the proposed move overlaps an obstacle, \<^verbatim>\<open>Farmer.update\<close> puts both
  coordinates back to their values before the move; otherwise the player is at the
  proposed position. So a player that overlaps no obstacle overlaps none after the
  update, and the same holds for the player of the game over any frame.
\<close>

theorem obstacle_rejects_move:
  "(overlapsAny (proposedMove dt f) obs \<longrightarrow>
      x (Farmer_update dt obs f) = x f \<and> y (Farmer_update dt obs f) = y f) \<and>
   (\<not> overlapsAny (proposedMove dt f) obs \<longrightarrow>
      x (Farmer_update dt obs f) = clamp (x f + vx f * dt) 0 (WIDTH - w f) \<and>
      y (Farmer_update dt obs f) = clamp (y f + vy f * dt) 0 (HEIGHT - h f)) \<and>
   (\<not> overlapsAny f obs \<longrightarrow> \<not> overlapsAny (Farmer_update dt obs f) obs) \<and>
   (\<not> overlapsAny (player g) (obstacles g) \<longrightarrow>
      \<not> overlapsAny (player (update rnd dt g)) (obstacles (update rnd dt g)))"
  using Farmer_update_clear [where f = f and obs = obs and dt = dt]
        update_clear [where g = g and rnd = rnd and dt = dt]
  by (simp add: Farmer_update_position) (simp add: proposedMove_def)

theorem obstacle_rejects_move_witness:
  "overlapsAny (proposedMove (33 / 1000) ((Farmer_new 160 230)\<lparr>vx := 260\<rparr>))
     [Scarecrow_new 200 220, Scarecrow_new 650 160] \<and>
   x (proposedMove (33 / 1000) ((Farmer_new 160 230)\<lparr>vx := 260\<rparr>)) = 16858 / 100 \<and>
   x (Farmer_update (33 / 1000) [Scarecrow_new 200 220, Scarecrow_new 650 160]
        ((Farmer_new 160 230)\<lparr>vx := 260\<rparr>)) = 160 \<and>
   y (Farmer_update (33 / 1000) [Scarecrow_new 200 220, Scarecrow_new 650 160]
        ((Farmer_new 160 230)\<lparr>vx := 260\<rparr>)) = 230 \<and>
   \<not> overlapsAny (proposedMove (33 / 1000) ((Farmer_new 433 460)\<lparr>vx := 260\<rparr>))
     [Scarecrow_new 200 220, Scarecrow_new 650 160] \<and>
   x (Farmer_update (33 / 1000) [Scarecrow_new 200 220, Scarecrow_new 650 160]
        ((Farmer_new 433 460)\<lparr>vx := 260\<rparr>)) = 44158 / 100 \<and>
   \<not> overlapsAny ((Farmer_new 160 230)\<lparr>vx := 260\<rparr>) [Scarecrow_new 200 220, Scarecrow_new 650 160] \<and>
   \<not> overlapsAny (player besideScarecrow) (obstacles besideScarecrow) \<and>
   \<not> overlapsAny (player (update rndZero (33 / 1000) besideScarecrow))
        (obstacles (update rndZero (33 / 1000) besideScarecrow)) \<and>
   x (player (update rndZero (33 / 1000) besideScarecrow)) = 160"
  using obstacle_rejects_move
      [of "33 / 1000" "(Farmer_new 160 230)\<lparr>vx := 260\<rparr>"
          "[Scarecrow_new 200 220, Scarecrow_new 650 160]" besideScarecrow rndZero]
    obstacle_rejects_move
      [of "33 / 1000" "(Farmer_new 433 460)\<lparr>vx := 260\<rparr>"
          "[Scarecrow_new 200 220, Scarecrow_new 650 160]" besideScarecrow rndZero]
  by (simp add: besideScarecrow_frame)
     (simp add: besideScarecrow_def playing0_eq overlapsAny_def proposedMove_def aabb_def clamp_def
        Farmer_new_def Scarecrow_new_def WIDTH_def HEIGHT_def)

text \<open>
  C6. In a playing frame that the countdown does not end, from a state that satisfies
  the invariant of the reachable states (\<open>reachable_gameOk\<close>): the crops collected are
  exactly those whose centre lies within 80 units of the player's centre when the player
  has the scythe, and exactly those whose bounding box overlaps the player's when it has
  not. The crops left are the others, the score grows by the values of the collected
  ones, and the player has the scythe in this frame iff a scythe entry has time left
  after the frame's elapsed time.
\<close>

theorem crops_matched:
  assumes "gameOk g" "state g = PLAYING" "0 < clamp (timeLeft g - dt) 0 GAME_LEN"
  shows
    "(let b = beforeCollection rnd dt g; p = player b;
          hit = (\<lambda>c. if hasScythe p then centreWithin 80 p c else boxesOverlap p c)
      in collectedCrops b = filter hit (crops b) \<and>
         crops (update rnd dt g) = map (Crop_update dt) (filter (\<lambda>c. \<not> hit c) (crops b)) \<and>
         score (update rnd dt g) = score g + sum_list (map cvalue (filter hit (crops b))) \<and>
         (hasScythe p \<longleftrightarrow>
            (\<exists>a. (Scythe, a) \<in> set (activePowerUps (player g)) \<and> 0 < ptimeLeft a - dt)))"
proof -
  let ?b = "beforeCollection rnd dt g"
  let ?hit = "\<lambda>c. if hasScythe (player ?b) then centreWithin 80 (player ?b) c
                   else boxesOverlap (player ?b) c"
  note f = update_play_fields [OF assms(2,3), of rnd]
  from assms(1) have okp: "farmerOk (player g)" and okc: "list_all cropOk (crops g)"
    by (simp_all add: gameOk_def)
  have p: "farmerOk (player ?b)"
    using okp by (simp add: beforeCollection_fields farmerOk_Farmer_update farmerOk_handleInput)
  have c: "list_all cropOk (crops ?b)" using okc by (rule beforeCollection_crops)
  have col: "collectedCrops ?b = filter ?hit (crops ?b)"
    using p c by (rule collectedCrops_spec)
  have alive: "\<forall>c \<in> set (crops ?b). \<not> dead c"
    using c by (simp add: list_all_iff cropOk_def)
  have m: "map (\<lambda>c. if c \<in> set (collectedCrops ?b) then c\<lparr>dead := True\<rparr> else c) (crops ?b)
        = map (\<lambda>c. if ?hit c then c\<lparr>dead := True\<rparr> else c) (crops ?b)"
    by (rule map_cong) (simp_all add: col)
  have cr: "crops (update rnd dt g) = map (Crop_update dt) (filter (\<lambda>c. \<not> ?hit c) (crops ?b))"
    by (simp only: f(2) m filter_marked [OF alive])
  have d: "distinct (map fst (activePowerUps (player g)))"
    using okp by (simp add: farmerOk_def powerUpsConsistent_def)
  have "hasScythe (player ?b) = map_has Scythe (agedEntries dt (activePowerUps (player g)))"
    using updatePowerUps_result(3) [of "player g" dt] d
    by (simp add: beforeCollection_fields Farmer_update_position updatePowerUps_handleInput)
  also have "\<dots> \<longleftrightarrow> (\<exists>a. (Scythe, a) \<in> set (activePowerUps (player g)) \<and> 0 < ptimeLeft a - dt)"
    by (force simp: map_has_iff agedEntries_def)
  finally have hs: "hasScythe (player ?b) \<longleftrightarrow>
      (\<exists>a. (Scythe, a) \<in> set (activePowerUps (player g)) \<and> 0 < ptimeLeft a - dt)" .
  show ?thesis
    unfolding Let_def using col cr hs by (simp add: f(4))
qed

theorem crops_matched_witness:
  "gameOk scytheActive \<and> state scytheActive = PLAYING \<and>
   0 < clamp (timeLeft scytheActive - 1 / 100) 0 GAME_LEN \<and>
   hasScythe (player (beforeCollection rndZero (1 / 100) scytheActive)) \<and>
   crops (update rndZero (1 / 100) scytheActive) = [Crop_update (1 / 100) (Crop_new 30 30 wheat 0)] \<and>
   score (update rndZero (1 / 100) scytheActive) = 1 \<and>
   gameOk scytheEnding \<and> state scytheEnding = PLAYING \<and>
   0 < clamp (timeLeft scytheEnding - 1 / 50) 0 GAME_LEN \<and>
   hasScythe (player scytheEnding) \<and>
   \<not> hasScythe (player (beforeCollection rndZero (1 / 50) scytheEnding)) \<and>
   crops (update rndZero (1 / 50) scytheEnding) = map (Crop_update (1 / 50)) (crops scytheEnding) \<and>
   score (update rndZero (1 / 50) scytheEnding) = 0"
  using crops_matched [OF gameOk_scytheActive, of "1 / 100" rndZero]
        crops_matched [OF gameOk_scytheEnding, of "1 / 50" rndZero]
  by (simp add: gameOk_scytheActive gameOk_scytheEnding scytheActive_frame scytheEnding_frame
        scytheActive_before scytheEnding_before)
     (simp add: scytheActive_def scytheEnding_def playing0_eq clamp_def GAME_LEN_def)

text \<open>
  C7. From a state that satisfies the invariant of the reachable states
  (\<open>reachable_gameOk\<close>), no frame and no run of frames decreases the score, and a
  frame in a state other than PLAYING changes nothing at all.
\<close>

theorem score_monotone:
  assumes "gameOk g"
  shows "score g \<le> score (update rnd dt g) \<and>
         score g \<le> score (frames fs g) \<and>
         (state g \<noteq> PLAYING \<longrightarrow> update rnd dt g = g)"
  using assms by (simp add: update_score_mono frames_score_mono update_idle)

theorem score_monotone_witness:
  "gameOk oneApple \<and> score oneApple = 10 \<and> score (update rndZero (1 / 100) oneApple) = 15 \<and>
   score oneApple \<le> score (frames [(rndZero, 1 / 100), (rndHalf, 1 / 100)] oneApple) \<and>
   gameOk paused0 \<and> state paused0 \<noteq> PLAYING \<and> update rndZero (1 / 100) paused0 = paused0"
  using score_monotone [OF gameOk_oneApple, of rndZero "1 / 100" "[(rndZero, 1 / 100), (rndHalf, 1 / 100)]"]
        score_monotone [OF gameOk_paused0, of rndZero "1 / 100" "[]"]
  by (simp add: gameOk_oneApple gameOk_paused0 paused0_state oneApple_frame)
     (simp add: oneApple_def)

text \<open>
  C8. From any state, \<^verbatim>\<open>reset()\<close> followed by \<^verbatim>\<open>start()\<close> gives the same playing
  configuration: state PLAYING, score 0, the timer at the round length, no crops,
  power-ups or floating texts, the player new at its start position, the two scarecrows
  at their fixed places. Only the goal and the held keys are taken from the state before.
\<close>

theorem reset_then_start:
  "start n2 (reset n1 g) =
     \<lparr>state = PLAYING,
      player = Farmer_new (WIDTH / 2 - 17) (HEIGHT - 80),
      crops = [], powerUps = [],
      obstacles = [Scarecrow_new 200 220, Scarecrow_new 650 160],
      pointTexts = [],
      lastTime = n2, timeLeft = GAME_LEN,
      accumSpawn = 0, accumPowerUpSpawn = 0,
      score = 0, goal = goal g, input = input g\<rparr>"
  by (simp add: start_def reset_def Let_def)

theorem reset_then_start_witness:
  "state (update rndZero 60 playing0) = GAME_OVER \<and>
   start 2 (reset 1 (update rndZero 60 playing0)) = playing0\<lparr>lastTime := 2\<rparr>"
  using reset_then_start [of 2 1 "update rndZero 60 playing0"]
  by (simp add: timeUp0) (simp add: playing0_eq GAME_LEN_def WIDTH_def HEIGHT_def)

text \<open>
  C9. In a playing frame that the countdown does not end, the velocity and the
  displacement of the player are computed from the speed field as the frame found it,
  that is, as the previous frame's \<^verbatim>\<open>updatePowerUps\<close> left it; the speed this
  frame's \<^verbatim>\<open>updatePowerUps\<close> computes is stored and moves the player from the next
  frame on.
\<close>

theorem velocity_uses_previous_speed:
  assumes "state g = PLAYING" "0 < clamp (timeLeft g - dt) 0 GAME_LEN"
  shows
    "(let p = player g; p' = player (update rnd dt g);
          dx = of_bool (''ArrowRight'' \<in> keys (input g)) - of_bool (''ArrowLeft'' \<in> keys (input g));
          dy = of_bool (''ArrowDown'' \<in> keys (input g)) - of_bool (''ArrowUp'' \<in> keys (input g));
          nx = clamp (x p + dx * speed p * dt) 0 (WIDTH - w p);
          ny = clamp (y p + dy * speed p * dt) 0 (HEIGHT - h p);
          blocked = overlapsAny (p\<lparr>x := nx, y := ny\<rparr>) (obstacles g)
      in vx p' = dx * speed p \<and> vy p' = dy * speed p \<and>
         x p' = (if blocked then x p else nx) \<and>
         y p' = (if blocked then y p else ny) \<and>
         speed p' = speed (updatePowerUps dt p))"
proof -
  let ?f = "handleInput (input g) (player g)"
  have "overlapsAny (proposedMove dt ?f) (obstacles g) =
        overlapsAny ((player g)\<lparr>x := x (proposedMove dt ?f), y := y (proposedMove dt ?f)\<rparr>) (obstacles g)"
    by (intro overlapsAny_fields) (simp_all add: proposedMove_def handleInput_fields)
  then show ?thesis
    by (simp add: Let_def update_play_player [OF assms] Farmer_update_position)
       (simp add: proposedMove_def handleInput_fields)
qed

theorem velocity_uses_previous_speed_witness:
  "state boostEnding = PLAYING \<and> 0 < clamp (timeLeft boostEnding - 1 / 50) 0 GAME_LEN \<and>
   speed (player boostEnding) = 468 \<and>
   speed (updatePowerUps (1 / 50) (player boostEnding)) = 260 \<and>
   vx (player (update rndZero (1 / 50) boostEnding)) = 468 \<and>
   x (player (update rndZero (1 / 50) boostEnding)) = 433 + 468 * (1 / 50) \<and>
   speed (player (update rndZero (1 / 50) boostEnding)) = 260 \<and>
   x (player (frames [(rndZero, 1 / 50), (rndZero, 1 / 50)] boostEnding))
     = 433 + 468 * (1 / 50) + 260 * (1 / 50)"
  using velocity_uses_previous_speed [of boostEnding "1 / 50" rndZero]
  by (simp add: boostEnding_frame boostEnding_frames boostEnding_recomputed)
     (simp add: boostEnding_def playing0_eq Farmer_new_def clamp_def GAME_LEN_def)

text \<open>
  C10. For a random source with values in \<open>[0, 1)\<close>, every crop and every power-up is
  spawned on the grid (a whole number of tiles, one tile further) with its position in
  \<open>[TILE, WIDTH - TILE)\<close> and \<open>[TILE, HEIGHT - TILE)\<close>; so are all crops and power-ups of
  every reachable state.
\<close>

theorem spawn_on_grid:
  assumes "randomSource rnd"
  shows "onGrid (spawnCrop rnd i) \<and> onGrid (spawnPowerUp rnd i) \<and>
         (reachable g \<longrightarrow> list_all onGrid (crops g) \<and> list_all onGrid (powerUps g))"
  using assms reachable_gridOk [of g]
  by (simp add: onGrid_spawnCrop onGrid_spawnPowerUp gridOk_def)

theorem spawn_on_grid_witness:
  "randomSource rndHalf \<and>
   x (spawnCrop rndHalf 0) = 450 \<and> y (spawnCrop rndHalf 0) = 270 \<and> onGrid (spawnCrop rndHalf 0) \<and>
   x (spawnPowerUp rndHalf 0) = 450 \<and> y (spawnPowerUp rndHalf 0) = 270 \<and> onGrid (spawnPowerUp rndHalf 0) \<and>
   reachable pickedUp \<and> length (crops pickedUp) = 15 \<and> list_all onGrid (crops pickedUp) \<and>
   reachable spawned12 \<and> length (powerUps spawned12) = 1 \<and> list_all onGrid (powerUps spawned12)"
  using spawn_on_grid [OF randomSource_rndHalf, of 0 pickedUp]
        spawn_on_grid [OF randomSource_rndHalf, of 0 spawned12]
  by (simp add: randomSource_rndHalf reachable_pickedUp reachable_spawned12
        spawnCrop_position spawnPowerUp_position rndHalf_def TILE_def)
     (simp add: pickedUp_eq arrived_eq spawned12_eq)

end
